theory Spec2Isabelle
  imports Complex_Main "HOL-Library.AList"
begin

section \<open>Python strings and paths\<close>

text \<open>
  A Python \<open>str\<close> is modelled as a HOL \<open>string\<close>, each \<open>char\<close> standing for one code
  point below 256. \<open>is_space\<close> lists the code points of that range for which Python's
  \<open>str.isspace\<close> holds; these are the characters \<open>str.strip()\<close> removes at both ends.
\<close>

definition is_space :: "char \<Rightarrow> bool" where
  "is_space c = (let n = (of_char c :: nat) in
     (9 \<le> n \<and> n \<le> 13) \<or> (28 \<le> n \<and> n \<le> 32) \<or> n = 133 \<or> n = 160)"

definition strip :: "string \<Rightarrow> string" where
  "strip s = rev (dropWhile is_space (rev (dropWhile is_space s)))"

text \<open>\<open>sep.join(xs)\<close>.\<close>

fun join :: "string \<Rightarrow> string list \<Rightarrow> string" where
  "join sep [] = []"
| "join sep [x] = x"
| "join sep (x # y # ys) = x @ sep @ join sep (y # ys)"

text \<open>\<open>s.startswith(p)\<close>.\<close>

definition startswith :: "string \<Rightarrow> string \<Rightarrow> bool" where
  "startswith s p = (take (length p) s = p)"

text \<open>\<open>str.lower()\<close> on code points below 256: the ASCII capitals and the Latin-1 capitals
  (all of 192..222 but the multiplication sign 215) move up by 32.\<close>

definition lower_char :: "char \<Rightarrow> char" where
  "lower_char c = (let n = (of_char c :: nat) in
     if (65 \<le> n \<and> n \<le> 90) \<or> (192 \<le> n \<and> n \<le> 222 \<and> n \<noteq> 215) then char_of (n + 32) else c)"

definition lower :: "string \<Rightarrow> string" where
  "lower s = map lower_char s"

text \<open>The decimal digits of a natural number, as \<open>f"{i}"\<close> prints an \<open>int\<close> that is not negative.\<close>

definition digit_char :: "nat \<Rightarrow> char" where
  "digit_char d = ''0123456789'' ! d"

function str_nat :: "nat \<Rightarrow> string" where
  "str_nat n = (if n < 10 then [digit_char n] else str_nat (n div 10) @ [digit_char (n mod 10)])"
  by pat_completeness auto
termination
  by (relation "measure id") auto

declare str_nat.simps [simp del]

text \<open>\<open>os.path.basename\<close> and \<open>os.path.join\<close> of \<open>posixpath\<close>, for two components.\<close>

definition basename :: "string \<Rightarrow> string" where
  "basename p = rev (takeWhile (\<lambda>c. c \<noteq> CHR ''/'') (rev p))"

definition os_path_join :: "string \<Rightarrow> string \<Rightarrow> string" where
  "os_path_join a b =
     (if startswith b ''/'' then b
      else if a = [] \<or> last a = CHR ''/'' then a @ b
      else a @ ''/'' @ b)"

text \<open>
  \<open>os.environ[k] = v\<close>: \<open>putenv\<close> refuses a null character in the name or in the
  value, and a name that is empty or holds \<open>=\<close>, with a \<open>ValueError\<close>; otherwise the
  variable is set.
\<close>

definition os_environ_set ::
  "(string \<rightharpoonup> string) \<Rightarrow> string \<Rightarrow> string \<Rightarrow> string + (string \<rightharpoonup> string)" where
  "os_environ_set env k v =
     (if CHR 0x00 \<in> set k \<or> CHR 0x00 \<in> set v then Inl ''embedded null byte''
      else if k = [] \<or> CHR ''='' \<in> set k then Inl ''illegal environment variable name''
      else Inr (env(k \<mapsto> v)))"

text \<open>
  \<open>Path(p).suffix\<close> of \<open>pathlib\<close> (POSIX flavour). The name is the last component of the
  path, empty and \<open>.\<close> components being dropped when the path is parsed; the suffix is
  the part of the name from its last dot, when that dot is neither the first nor the last
  character of the name.
\<close>

fun split_on :: "char \<Rightarrow> string \<Rightarrow> string list" where
  "split_on d [] = [[]]"
| "split_on d (c # cs) =
     (if c = d then [] # split_on d cs
      else (case split_on d cs of [] \<Rightarrow> [[c]] | w # ws \<Rightarrow> (c # w) # ws))"

definition path_name :: "string \<Rightarrow> string" where
  "path_name p =
     (let parts = filter (\<lambda>w. w \<noteq> [] \<and> w \<noteq> ''.'') (split_on (CHR ''/'') p)
      in if parts = [] then [] else last parts)"

definition rfind_dot :: "string \<Rightarrow> nat option" where
  "rfind_dot name =
     (if CHR ''.'' \<in> set name
      then Some (length name - 1 - length (takeWhile (\<lambda>c. c \<noteq> CHR ''.'') (rev name)))
      else None)"

definition suffix :: "string \<Rightarrow> string" where
  "suffix p =
     (let name = path_name p in
      case rfind_dot name of
        None \<Rightarrow> []
      | Some i \<Rightarrow> if 0 < i \<and> i < length name - 1 then drop i name else [])"

section \<open>Documents, presentations and user-interface events\<close>

type_synonym exn = string

datatype mval = MStr string | MInt int

text \<open>A \<open>Document\<close>: its text and its metadata, a Python dict kept in insertion order.\<close>

record document =
  doc_text :: string
  doc_metadata :: "(string \<times> mval) list"

text \<open>
  What \<open>processar_pptx\<close> reads of a shape: its \<open>text\<close> when the shape has that attribute
  (\<open>hasattr(shape, "text")\<close>), and its table when \<open>shape.has_table\<close>, as the rows of the
  cells' texts. A slide is the list of its shapes.
\<close>

record shape =
  shape_text :: "string option"
  shape_table :: "string list list option"

type_synonym slide = "shape list"

text \<open>
  The calls of Streamlit that show something, in the order the code makes them. The
  literal texts of the source are written without their emoji, accents and HTML tags,
  an HTML block by its first line of text.
  \<open>St_status\<close> is \<open>status_text.text\<close>, \<open>St_progress i n\<close> is \<open>progress_bar.progress(i / n)\<close>,
  \<open>St_expander title expanded body\<close> an expander with the markdown lines written in it.
\<close>

datatype ui =
    St_error string
  | St_warning string
  | St_success string
  | St_info string
  | St_markdown string
  | St_status string
  | St_progress nat nat
  | St_expander string bool "string list"

section \<open>The presentation extractor: \<open>processar_pptx\<close>\<close>

text \<open>The body of \<open>for row in table.rows\<close>: the slide content after one row.\<close>

definition table_row :: "string \<Rightarrow> string list \<Rightarrow> string" where
  "table_row slide_content cells =
     (let row_text = join '' | '' (map strip cells) in
      if strip row_text \<noteq> [] then slide_content @ ''Tabela: '' @ row_text @ ''\<newline>''
      else slide_content)"

text \<open>The body of \<open>for shape in slide.shapes\<close>.\<close>

definition shape_step :: "string \<Rightarrow> shape \<Rightarrow> string" where
  "shape_step slide_content sh =
     (let sc = (case shape_text sh of
                  Some t \<Rightarrow> if strip t \<noteq> [] then slide_content @ t @ ''\<newline>'' else slide_content
                | None \<Rightarrow> slide_content)
      in case shape_table sh of
           Some rows \<Rightarrow> foldl table_row sc rows
         | None \<Rightarrow> sc)"

definition slide_header :: "nat \<Rightarrow> string" where
  "slide_header i = ''\<newline>=== SLIDE '' @ str_nat i @ '' ===\<newline>''"

text \<open>The body of \<open>for i, slide in enumerate(prs.slides, 1)\<close>: the element of \<open>slides_texto\<close>.\<close>

definition slide_content :: "nat \<Rightarrow> slide \<Rightarrow> string" where
  "slide_content i shapes = foldl shape_step (slide_header i) shapes"

text \<open>
  \<open>processar_pptx\<close>. The library call \<open>Presentation(caminho_arquivo)\<close> is the parameter
  \<open>Presentation\<close>: it fails with the message of the exception, or gives the slides. The
  result is the returned pair and the messages shown.
\<close>

definition processar_pptx ::
  "(string \<Rightarrow> exn + slide list) \<Rightarrow> string \<Rightarrow> (document option \<times> nat) \<times> ui list" where
  "processar_pptx Presentation caminho_arquivo =
     (case Presentation caminho_arquivo of
        Inl e \<Rightarrow>
          ((None, 0),
           [St_error (''Erro ao processar PPTX '' @ basename caminho_arquivo @ '': '' @ e)])
      | Inr slides \<Rightarrow>
          (let slides_texto = map (\<lambda>(i, sl). slide_content i sl) (enumerate 1 slides);
               texto_completo = join ''\<newline>'' slides_texto
           in ((Some \<lparr>doc_text = texto_completo,
                      doc_metadata =
                        [(''file_name'', MStr (basename caminho_arquivo)),
                         (''file_type'', MStr ''pptx''),
                         (''total_slides'', MInt (int (length slides))),
                         (''source'', MStr ''presentation'')]\<rparr>,
                length slides), [])))"

section \<open>Reading the slide headers off a text\<close>

text \<open>
  The spec's words for the headers of an extracted text: the lines of the text that read
  \<open>=== SLIDE n ===\<close>, with \<open>n\<close> written in decimal digits, and the numbers they carry, in
  the order of the text. \<open>nl_closed\<close> says of a piece of text that it is empty or ends
  with a newline.
\<close>

definition text_lines :: "string \<Rightarrow> string list" where
  "text_lines s = split_on (CHR 0x0A) s"

definition is_digit :: "char \<Rightarrow> bool" where
  "is_digit c = (c \<in> set ''0123456789'')"

definition is_header_line :: "string \<Rightarrow> bool" where
  "is_header_line l =
     (14 < length l \<and> take 10 l = ''=== SLIDE '' \<and> drop (length l - 4) l = '' ==='' \<and>
      list_all is_digit (take (length l - 14) (drop 10 l)))"

definition dec_value :: "string \<Rightarrow> nat" where
  "dec_value ds = foldl (\<lambda>a c. 10 * a + (of_char c - 48)) 0 ds"

definition header_number :: "string \<Rightarrow> nat" where
  "header_number l = dec_value (take (length l - 14) (drop 10 l))"

definition slide_headers :: "string \<Rightarrow> nat list" where
  "slide_headers s = map header_number (filter is_header_line (text_lines s))"

definition nl_closed :: "string \<Rightarrow> bool" where
  "nl_closed c = (c = [] \<or> (\<exists>c'. c = c' @ ''\<newline>''))"

section \<open>The format dispatcher: \<open>processar_documentos\<close>\<close>

definition formatos_suportados :: "string list" where
  "formatos_suportados = [''.pdf'', ''.docx'', ''.pptx'', ''.txt'', ''.md'']"

text \<open>
  What the dispatcher and the upload section ask of the file system and of the document
  libraries, each call failing with the message of its exception or giving its result:
  \<open>os.listdir\<close>; \<open>Presentation\<close> of \<open>pptx\<close>;
  \<open>SimpleDirectoryReader(input_files=[caminho], required_exts=[extensao]).load_data()\<close>
  as a function of \<open>caminho\<close> and \<open>extensao\<close>; the name of the temporary directory; and
  the writing and extraction of the uploaded archive into a directory (\<open>None\<close> when
  nothing is raised).
\<close>

record files =
  fs_listdir :: "string \<Rightarrow> exn + string list"
  fs_Presentation :: "string \<Rightarrow> exn + slide list"
  fs_load_data :: "string \<Rightarrow> string \<Rightarrow> exn + document list"
  fs_temp_dir :: string
  fs_extractall :: "string \<Rightarrow> string \<Rightarrow> exn option"

text \<open>\<open>doc.metadata.update({...})\<close>: a key that is present keeps its place, a new key goes last.\<close>

definition update_metadata :: "string \<Rightarrow> string \<Rightarrow> document \<Rightarrow> document" where
  "update_metadata arquivo extensao doc =
     doc\<lparr>doc_metadata :=
       AList.update ''source'' (MStr ''document'')
         (AList.update ''file_type'' (MStr (drop 1 extensao))
           (AList.update ''file_name'' (MStr arquivo) (doc_metadata doc)))\<rparr>"

text \<open>
  The \<open>try\<close> block of the loop over \<open>arquivos\<close>, for one file: the documents appended to
  \<open>documentos_processados\<close> and the messages shown.
\<close>

definition process_file :: "files \<Rightarrow> string \<Rightarrow> string \<Rightarrow> document list \<times> ui list" where
  "process_file fs pasta_temp arquivo =
     (let caminho = os_path_join pasta_temp arquivo;
          extensao = lower (suffix arquivo)
      in if extensao = ''.pptx'' then
           (case processar_pptx (fs_Presentation fs) caminho of
              ((Some doc, num_slides), evs) \<Rightarrow> ([doc], evs)
            | ((None, num_slides), evs) \<Rightarrow> ([], evs))
         else if extensao \<in> set [''.docx'', ''.pdf'', ''.txt'', ''.md''] then
           (case fs_load_data fs caminho extensao of
              Inl e \<Rightarrow> ([], [St_warning (''Erro ao processar '' @ arquivo @ '': '' @ e)])
            | Inr docs \<Rightarrow> (map (update_metadata arquivo extensao) docs, []))
         else ([], []))"

text \<open>
  The loop \<open>for i, arquivo in enumerate(arquivos)\<close>, \<open>n\<close> being \<open>len(arquivos)\<close>, \<open>i\<close> the
  index reached and \<open>documentos\<close> the list built so far.
\<close>

fun process_files ::
  "files \<Rightarrow> string \<Rightarrow> nat \<Rightarrow> nat \<Rightarrow> string list \<Rightarrow> document list \<Rightarrow> document list \<times> ui list" where
  "process_files fs pasta_temp n i [] documentos = (documentos, [])"
| "process_files fs pasta_temp n i (arquivo # rest) documentos =
     (case process_file fs pasta_temp arquivo of
        (docs, evs) \<Rightarrow>
          (case process_files fs pasta_temp n (Suc i) rest (documentos @ docs) of
             (result, evs') \<Rightarrow>
               (result,
                [St_status (''Processando: '' @ arquivo), St_progress (Suc i) n] @ evs @ evs')))"

text \<open>
  \<open>processar_documentos\<close>: an exception of \<open>os.listdir\<close> is not caught here; otherwise the
  returned pair and what was shown. \<open>time.sleep\<close> and the clearing of the progress bar
  and of the status line show nothing and are left out.
\<close>

definition processar_documentos ::
  "files \<Rightarrow> string \<Rightarrow> exn + ((document list \<times> nat) \<times> ui list)" where
  "processar_documentos fs pasta_temp =
     (case fs_listdir fs pasta_temp of
        Inl e \<Rightarrow> Inl e
      | Inr entries \<Rightarrow>
          (let arquivos =
                 filter (\<lambda>arquivo. lower (suffix arquivo) \<in> set formatos_suportados) entries
           in if arquivos = [] then Inr (([], 0), [])
              else (case process_files fs pasta_temp (length arquivos) 0 arquivos [] of
                      (documentos_processados, evs) \<Rightarrow>
                        Inr ((documentos_processados, length arquivos),
                             [St_progress 0 1] @ evs @
                             [St_progress 1 1, St_status ''Processamento concluido!'']))))"

text \<open>
  The spec's words for the recognized set: one of the five extensions, matched without
  regard to case on the file's suffix.
\<close>

definition recognized_extension :: "string \<Rightarrow> bool" where
  "recognized_extension arquivo =
     (\<exists>e \<in> {''.pdf'', ''.docx'', ''.pptx'', ''.txt'', ''.md''}. lower (suffix arquivo) = lower e)"

section \<open>Backend configuration and index construction\<close>

text \<open>
  The model libraries: \<open>HuggingFaceEmbedding\<close> is \<open>None\<close> when its import failed, else
  the constructor applied to \<open>model_name\<close>; \<open>OpenAI\<close> is applied to \<open>model\<close> and
  \<open>temperature\<close>. The process-wide state is \<open>os.environ\<close> and the two attributes of
  \<open>Settings\<close> the program assigns (\<open>None\<close>: not assigned by it).
\<close>

record ('em, 'llm) backend =
  HuggingFaceEmbedding :: "(string \<Rightarrow> exn + 'em) option"
  OpenAI :: "string \<Rightarrow> rat \<Rightarrow> exn + 'llm"

record ('em, 'llm) process =
  environ :: "string \<rightharpoonup> string"
  Settings_embed_model :: "'em option"
  Settings_llm :: "'llm option"

definition configurar_sistema ::
  "('em, 'llm) backend \<Rightarrow> ('em, 'llm) process \<Rightarrow> (bool \<times> ('em, 'llm) process) \<times> ui list" where
  "configurar_sistema be p =
     (case (case HuggingFaceEmbedding be of
              None \<Rightarrow> Inr p
            | Some mk \<Rightarrow>
                (case mk ''sentence-transformers/all-MiniLM-L6-v2'' of
                   Inl e \<Rightarrow> Inl e
                 | Inr embed_model \<Rightarrow> Inr (p\<lparr>Settings_embed_model := Some embed_model\<rparr>))) of
        Inl e \<Rightarrow> ((False, p), [St_error (''Erro na configuracao: '' @ e)])
      | Inr p1 \<Rightarrow>
          (case OpenAI be ''gpt-3.5-turbo'' (1 / 2) of
             Inl e \<Rightarrow> ((False, p1), [St_error (''Erro na configuracao: '' @ e)])
           | Inr l \<Rightarrow> ((True, p1\<lparr>Settings_llm := Some l\<rparr>), [])))"

text \<open>
  The arguments of \<open>SentenceSplitter\<close> and of \<open>index.as_query_engine\<close>, and the retrieval
  library: \<open>VectorStoreIndex.from_documents(documentos, node_parser=...)\<close>,
  \<open>index.as_query_engine(...)\<close> and \<open>query_engine.query(pergunta).response\<close>.
\<close>

record splitter_args =
  chunk_size :: nat
  chunk_overlap :: nat
  paragraph_separator :: string

record engine_args =
  similarity_top_k :: nat
  response_mode :: string
  verbose :: bool
  streaming :: bool
  max_tokens :: nat
  temperature :: rat

record ('idx, 'qe) rag =
  from_documents :: "document list \<Rightarrow> splitter_args \<Rightarrow> exn + 'idx"
  as_query_engine :: "'idx \<Rightarrow> engine_args \<Rightarrow> exn + 'qe"
  query :: "'qe \<Rightarrow> string \<Rightarrow> exn + string"

definition criar_indice :: "('idx, 'qe) rag \<Rightarrow> document list \<Rightarrow> 'qe option \<times> ui list" where
  "criar_indice rg documentos =
     (let node_parser =
            \<lparr>chunk_size = 3000, chunk_overlap = 600, paragraph_separator = ''\<newline>\<newline>''\<rparr>
      in case from_documents rg documentos node_parser of
           Inl e \<Rightarrow> (None, [St_error (''Erro ao criar indice: '' @ e)])
         | Inr index \<Rightarrow>
             (case as_query_engine rg index
                     \<lparr>similarity_top_k = 40, response_mode = ''tree_summarize'',
                      verbose = True, streaming = False,
                      max_tokens = 12000, temperature = 1 / 2\<rparr> of
                Inl e \<Rightarrow> (None, [St_error (''Erro ao criar indice: '' @ e)])
              | Inr query_engine \<Rightarrow> (Some query_engine, [])))"

section \<open>Session state and the script: \<open>modal_api_key\<close> and \<open>main\<close>\<close>

text \<open>
  \<open>st.session_state\<close>. A key that is absent is \<open>None\<close> for the three keys the code tests
  with \<open>not in\<close>; \<open>query_engine\<close> is \<open>None\<close> for Python's \<open>None\<close>; \<open>query_engine\<close> and
  \<open>num_documentos\<close> are created together with \<open>documentos_processados\<close>.
\<close>

record chat =
  pergunta :: string
  resposta :: string

record 'qe session =
  api_key_configured :: "bool option"
  documentos_processados :: "bool option"
  query_engine :: "'qe option"
  num_documentos :: nat
  chat_history :: "chat list option"

text \<open>The values of the widgets in one run of the script.\<close>

record inputs =
  api_key_input :: string
  config_button :: bool
  uploaded_file :: "string option"
  reload_button :: bool
  pergunta_input :: string
  enviar_pergunta :: bool

text \<open>
  How a run ends: the function returns, \<open>st.rerun()\<close> stops the script, or an exception
  that nothing catches leaves it.
\<close>

datatype 'a outcome = Returned 'a | Rerun | Uncaught exn

text \<open>
  \<open>modal_api_key\<close>. The assignment to \<open>os.environ\<close> of line 253 stands outside every
  \<open>try\<close>: when it raises, the exception leaves the function and the script.
\<close>

definition modal_api_key ::
  "('em, 'llm) backend \<Rightarrow> inputs \<Rightarrow> 'qe session \<Rightarrow> ('em, 'llm) process \<Rightarrow>
     (bool outcome \<times> 'qe session \<times> ('em, 'llm) process) \<times> ui list" where
  "modal_api_key be inp s p =
     (let s0 = (if api_key_configured s = None then s\<lparr>api_key_configured := Some False\<rparr> else s)
      in if api_key_configured s0 \<noteq> Some True then
           (let evs0 = [St_markdown ''### Configuracao Inicial'',
                        St_info ''Para usar o sistema, insira sua OpenAI API Key:''];
                api_key = api_key_input inp
            in if config_button inp then
                 (if api_key \<noteq> [] \<and> startswith api_key ''sk-'' then
                    (case os_environ_set (environ p) ''OPENAI_API_KEY'' api_key of
                       Inl e \<Rightarrow> ((Uncaught e, s0, p), evs0)
                     | Inr env \<Rightarrow>
                         (case configurar_sistema be (p\<lparr>environ := env\<rparr>) of
                            ((True, p2), evs) \<Rightarrow>
                              ((Rerun, s0\<lparr>api_key_configured := Some True\<rparr>, p2),
                               evs0 @ evs @ [St_success ''Sistema configurado com sucesso!''])
                          | ((False, p2), evs) \<Rightarrow>
                              ((Returned False, s0, p2),
                               evs0 @ evs @
                               [St_error ''Erro na configuracao. Verifique sua API Key.''])))
                  else
                    ((Returned False, s0, p),
                     evs0 @
                     [St_error
                        (''Por favor, insira uma API Key valida (deve comecar com '' @
                         [CHR 0x27] @ ''sk-'' @ [CHR 0x27] @ '')'')]))
               else ((Returned False, s0, p), evs0))
         else ((Returned True, s0, p), []))"

text \<open>The transcript: \<open>chat_history\<close> as line 376 initialises it.\<close>

definition transcript :: "'qe session \<Rightarrow> chat list" where
  "transcript s = (case chat_history s of None \<Rightarrow> [] | Some h \<Rightarrow> h)"

text \<open>Lines 405 to 412: the transcript shown, the latest entry first.\<close>

definition exibir_historico :: "chat list \<Rightarrow> ui list" where
  "exibir_historico h =
     (if h \<noteq> [] then
        [St_markdown ''---'', St_markdown ''### Historico de Conversas''] @
        map (\<lambda>(i, c).
               St_expander (take 50 (pergunta c) @ ''...'') (i = 0)
                 [''**Pergunta:** '' @ pergunta c, ''**Resposta:** '' @ resposta c])
            (enumerate 0 (rev h))
      else [])"

text \<open>Lines 290 to 349 of \<open>main\<close>: the upload section.\<close>

definition upload_section ::
  "('idx, 'qe) rag \<Rightarrow> files \<Rightarrow> inputs \<Rightarrow> 'qe session \<Rightarrow> (unit outcome \<times> 'qe session) \<times> ui list" where
  "upload_section rg fs inp s =
     (let evs0 = [St_markdown ''Upload de Documentos''] in
      case uploaded_file inp of
        None \<Rightarrow> ((Returned (), s), evs0)
      | Some blob \<Rightarrow>
          (let temp_dir = fs_temp_dir fs;
               extract_dir = os_path_join temp_dir ''extracted''
           in case fs_extractall fs blob extract_dir of
                Some e \<Rightarrow> ((Uncaught e, s), evs0)
              | None \<Rightarrow>
                  (case processar_documentos fs extract_dir of
                     Inl e \<Rightarrow> ((Uncaught e, s), evs0)
                   | Inr ((documentos, num_arquivos), evs1) \<Rightarrow>
                       if documentos \<noteq> [] then
                         (case criar_indice rg documentos of
                            (Some qe, evs2) \<Rightarrow>
                              ((Rerun,
                                s\<lparr>documentos_processados := Some True,
                                  query_engine := Some qe,
                                  num_documentos := length documentos\<rparr>),
                               evs0 @ evs1 @ evs2 @
                               [St_markdown
                                  (str_nat (length documentos) @
                                   '' documentos processados com sucesso!'')])
                          | (None, evs2) \<Rightarrow>
                              ((Returned (), s),
                               evs0 @ evs1 @ evs2 @
                               [St_markdown ''Erro ao criar indice dos documentos'']))
                       else
                         ((Returned (), s),
                          evs0 @ evs1 @
                          [St_markdown ''Nenhum documento valido encontrado no ZIP'']))))"

text \<open>
  Lines 352 to 412 of \<open>main\<close>: the chat section. \<open>query\<close> of a \<open>query_engine\<close> that is
  \<open>None\<close> raises inside the \<open>try\<close>.
\<close>

definition chat_section ::
  "('idx, 'qe) rag \<Rightarrow> inputs \<Rightarrow> 'qe session \<Rightarrow> (unit outcome \<times> 'qe session) \<times> ui list" where
  "chat_section rg inp s =
     (let evs0 = [St_markdown
                    (str_nat (num_documentos s) @
                     '' documentos carregados - Sistema pronto para perguntas!'')]
      in if reload_button inp then
           ((Rerun,
             s\<lparr>documentos_processados := Some False, query_engine := None,
               num_documentos := 0\<rparr>),
            evs0)
         else
           (let evs1 = evs0 @ [St_markdown ''---'', St_markdown ''Faca sua pergunta''];
                s1 = (if chat_history s = None then s\<lparr>chat_history := Some []\<rparr> else s);
                question = pergunta_input inp;
                (s2, evs2) =
                  (if enviar_pergunta inp \<and> strip question \<noteq> [] then
                     (case (case query_engine s1 of
                              None \<Rightarrow> Inl ''NoneType object has no attribute query''
                            | Some qe \<Rightarrow> query rg qe question) of
                        Inr response \<Rightarrow>
                          (s1\<lparr>chat_history :=
                                Some (transcript s1 @
                                      [\<lparr>pergunta = question, resposta = response\<rparr>])\<rparr>,
                           [])
                      | Inl e \<Rightarrow> (s1, [St_error (''Erro ao processar pergunta: '' @ e)]))
                   else (s1, []))
            in ((Returned (), s2), evs1 @ evs2 @ exibir_historico (transcript s2))))"

text \<open>\<open>main\<close>: one run of the script on the session and process state it finds.\<close>

definition main ::
  "('em, 'llm) backend \<Rightarrow> ('idx, 'qe) rag \<Rightarrow> files \<Rightarrow> inputs \<Rightarrow> 'qe session \<Rightarrow>
     ('em, 'llm) process \<Rightarrow> (unit outcome \<times> 'qe session \<times> ('em, 'llm) process) \<times> ui list" where
  "main be rg fs inp s p =
     (case modal_api_key be inp s p of
        ((Rerun, s1, p1), evs) \<Rightarrow> ((Rerun, s1, p1), evs)
      | ((Uncaught e, s1, p1), evs) \<Rightarrow> ((Uncaught e, s1, p1), evs)
      | ((Returned False, s1, p1), evs) \<Rightarrow> ((Returned (), s1, p1), evs)
      | ((Returned True, s1, p1), evs) \<Rightarrow>
          (let evs1 = evs @ [St_markdown ''RAG Interativo-Explicacoes BackOffice e Gestao''];
               s2 = (if documentos_processados s1 = None
                     then s1\<lparr>documentos_processados := Some False, query_engine := None,
                            num_documentos := 0\<rparr>
                     else s1)
           in case (if documentos_processados s2 \<noteq> Some True
                    then upload_section rg fs inp s2
                    else chat_section rg inp s2) of
                ((out, s3), evs2) \<Rightarrow> ((out, s3, p1), evs1 @ evs2)))"

text \<open>
  A session: Streamlit runs the script again at every interaction and after every
  \<open>st.rerun()\<close>, on the session state and the process state the run before has left,
  also when an exception ended that run. \<open>run_all\<close> gives the state after a list of
  runs, each with the behaviour of its libraries and the values of its widgets.
\<close>

fun run_all ::
  "(('em, 'llm) backend \<times> ('idx, 'qe) rag \<times> files \<times> inputs) list \<Rightarrow> 'qe session \<Rightarrow>
     ('em, 'llm) process \<Rightarrow> 'qe session \<times> ('em, 'llm) process" where
  "run_all [] s p = (s, p)"
| "run_all ((be, rg, fs, inp) # rest) s p =
     (case main be rg fs inp s p of ((out, s', p'), evs) \<Rightarrow> run_all rest s' p')"

section \<open>Properties of the string functions\<close>

lemma strip_eq_Nil: "strip s = [] \<longleftrightarrow> (\<forall>c \<in> set s. is_space c)"
proof
  assume e: "strip s = []"
  show "\<forall>c \<in> set s. is_space c"
  proof (cases "dropWhile is_space s = []")
    case True
    then show ?thesis by (simp add: dropWhile_eq_Nil_conv)
  next
    case False
    then have "\<not> is_space (hd (dropWhile is_space s))" by (rule hd_dropWhile)
    moreover have "hd (dropWhile is_space s) \<in> set (dropWhile is_space s)"
      using False by simp
    moreover from e have "\<forall>c \<in> set (dropWhile is_space s). is_space c"
      by (simp add: strip_def dropWhile_eq_Nil_conv)
    ultimately show ?thesis by blast
  qed
next
  assume "\<forall>c \<in> set s. is_space c"
  then have d: "dropWhile is_space s = []" by (simp add: dropWhile_eq_Nil_conv)
  show "strip s = []" unfolding strip_def d by simp
qed

lemma mem_dropWhile: "x \<in> set s \<Longrightarrow> \<not> P x \<Longrightarrow> x \<in> set (dropWhile P s)"
  by (induction s) auto

lemma mem_strip: "x \<in> set s \<Longrightarrow> \<not> is_space x \<Longrightarrow> x \<in> set (strip s)"
  by (simp add: strip_def mem_dropWhile)

lemma strip_nonblank_char: "strip s \<noteq> [] \<Longrightarrow> \<exists>x \<in> set (strip s). \<not> is_space x"
  using mem_strip strip_eq_Nil by blast

section \<open>Properties of the presentation extractor\<close>

lemma table_row_append: "table_row sc cells = sc @ table_row [] cells"
  by (simp add: table_row_def Let_def)

lemma foldl_table_row: "foldl table_row sc rows = sc @ concat (map (table_row []) rows)"
proof (induction rows arbitrary: sc)
  case Nil
  show ?case by simp
next
  case (Cons r rows)
  have "foldl table_row sc (r # rows) = foldl table_row (table_row sc r) rows" by simp
  also have "\<dots> = table_row sc r @ concat (map (table_row []) rows)" by (rule Cons.IH)
  also have "\<dots> = sc @ concat (map (table_row []) (r # rows))"
    by (subst table_row_append) simp
  finally show ?case .
qed

lemma shape_step_append: "shape_step sc sh = sc @ shape_step [] sh"
  by (simp add: shape_step_def Let_def foldl_table_row split: option.splits)

lemma foldl_shape_step: "foldl shape_step sc shapes = sc @ concat (map (shape_step []) shapes)"
proof (induction shapes arbitrary: sc)
  case Nil
  show ?case by simp
next
  case (Cons r rows)
  have "foldl shape_step sc (r # rows) = foldl shape_step (shape_step sc r) rows" by simp
  also have "\<dots> = shape_step sc r @ concat (map (shape_step []) rows)" by (rule Cons.IH)
  also have "\<dots> = sc @ concat (map (shape_step []) (r # rows))"
    by (subst shape_step_append) simp
  finally show ?case .
qed

lemma not_space_bar: "\<not> is_space (CHR ''|'')"
  by (simp add: is_space_def)

lemma bar_in_join: "2 \<le> length xs \<Longrightarrow> CHR ''|'' \<in> set (join '' | '' xs)"
  by (induction "'' | ''" xs rule: join.induct) auto

lemma table_row_emits:
  "table_row sc cells =
     (if 2 \<le> length cells \<or> (\<exists>c \<in> set cells. strip c \<noteq> [])
      then sc @ ''Tabela: '' @ join '' | '' (map strip cells) @ ''\<newline>'' else sc)"
proof (cases "2 \<le> length cells")
  case True
  then have "CHR ''|'' \<in> set (join '' | '' (map strip cells))" by (simp add: bar_in_join)
  then have "strip (join '' | '' (map strip cells)) \<noteq> []"
    using not_space_bar strip_eq_Nil by blast
  with True show ?thesis by (simp add: table_row_def Let_def)
next
  case False
  then consider "cells = []" | c where "cells = [c]"
    by (cases cells; cases "tl cells") auto
  then show ?thesis
  proof cases
    case 1
    then show ?thesis by (simp add: table_row_def strip_def)
  next
    case 2
    have "strip (strip c) = [] \<longleftrightarrow> strip c = []"
      using strip_nonblank_char strip_eq_Nil by (metis list.set_cases list.distinct(1) empty_iff list.set(1))
    with 2 show ?thesis by (simp add: table_row_def Let_def)
  qed
qed

lemma slide_content_eq:
  "slide_content i shapes = slide_header i @ concat (map (shape_step []) shapes)"
  by (simp add: slide_content_def foldl_shape_step)

lemma digit_char_code: "d < 10 \<Longrightarrow> of_char (digit_char d) = 48 + d"
  by (auto simp: digit_char_def nth_Cons split: nat.splits)

lemma digit_char_inj:
  assumes "a < 10" and "b < 10" and "digit_char a = digit_char b"
  shows "a = b"
proof -
  have "48 + a = (of_char (digit_char a) :: nat)" using assms(1) by (rule digit_char_code[symmetric])
  also have "\<dots> = of_char (digit_char b)" by (simp only: assms(3))
  also have "\<dots> = 48 + b" using assms(2) by (rule digit_char_code)
  finally show ?thesis by arith
qed

lemma str_nat_not_Nil: "str_nat n \<noteq> []"
  by (subst str_nat.simps) simp

lemma str_nat_inj: "str_nat m = str_nat n \<Longrightarrow> m = n"
proof (induction m arbitrary: n rule: str_nat.induct)
  case (1 m)
  show ?case
  proof (cases "m < 10")
    case True
    show ?thesis
    proof (cases "n < 10")
      case n: True
      from "1.prems" True n have "digit_char m = digit_char n" by (simp add: str_nat.simps)
      with True n show ?thesis by (rule digit_char_inj)
    next
      case False
      with "1.prems" True have "[digit_char m] = str_nat (n div 10) @ [digit_char (n mod 10)]"
        by (simp add: str_nat.simps)
      then have "str_nat (n div 10) = []" by simp
      then show ?thesis by (simp add: str_nat_not_Nil)
    qed
  next
    case False
    show ?thesis
    proof (cases "n < 10")
      case True
      with "1.prems" False have "str_nat (m div 10) @ [digit_char (m mod 10)] = [digit_char n]"
        by (simp add: str_nat.simps)
      then have "str_nat (m div 10) = []" by simp
      then show ?thesis by (simp add: str_nat_not_Nil)
    next
      case n: False
      from "1.prems" False n
      have e: "str_nat (m div 10) @ [digit_char (m mod 10)] = str_nat (n div 10) @ [digit_char (n mod 10)]"
        by (simp add: str_nat.simps)
      then have "str_nat (m div 10) = str_nat (n div 10)" by simp
      with False have q: "m div 10 = n div 10" by (rule "1.IH")
      from e have "digit_char (m mod 10) = digit_char (n mod 10)" by simp
      then have r: "m mod 10 = n mod 10" by (intro digit_char_inj) simp_all
      from q r show ?thesis by (metis div_mult_mod_eq)
    qed
  qed
qed

lemma slide_header_inj: "slide_header i = slide_header j \<Longrightarrow> i = j"
  by (simp add: slide_header_def str_nat_inj)

lemma basename_join:
  assumes "CHR ''/'' \<notin> set arquivo"
  shows "basename (os_path_join pasta arquivo) = arquivo"
proof -
  from assms have n: "\<not> startswith arquivo ''/''"
    by (cases arquivo) (auto simp: startswith_def)
  from assms have "\<forall>x \<in> set (rev arquivo). x \<noteq> CHR ''/''" by auto
  then have t: "takeWhile (\<lambda>c. c \<noteq> CHR ''/'') (rev arquivo) = rev arquivo"
    by (simp only: takeWhile_eq_all_conv)
  have a: "basename (q @ ''/'' @ arquivo) = arquivo" for q
    by (simp add: basename_def takeWhile_append2 takeWhile_tail t) 
  have b: "basename arquivo = arquivo" by (simp add: basename_def t)
  have c: "q \<noteq> [] \<Longrightarrow> last q = CHR ''/'' \<Longrightarrow> basename (q @ arquivo) = arquivo" for q
  proof -
    assume "q \<noteq> []" "last q = CHR ''/''"
    then have "q = butlast q @ ''/''" by (metis append_butlast_last_id)
    then have "q @ arquivo = butlast q @ ''/'' @ arquivo" by (metis append.assoc)
    then show ?thesis by (simp only: a)
  qed
  show ?thesis
  proof (cases "pasta = []")
    case True
    with n b show ?thesis by (simp add: os_path_join_def)
  next
    case False
    with n a c[of pasta] show ?thesis by (simp add: os_path_join_def)
  qed
qed

lemma slides_texto_eq:
  "map (\<lambda>(i, sl). slide_content i sl) (enumerate 1 slides) =
   map (\<lambda>k. slide_header (Suc k) @ concat (map (shape_step []) (slides ! k))) [0..<length slides]"
  by (rule nth_equalityI) (simp_all add: nth_enumerate_eq slide_content_eq)

lemma split_on_not_Nil: "split_on d xs \<noteq> []"
  by (induction xs) (auto split: list.splits)

lemma split_on_append: "split_on d (xs @ d # ys) = split_on d xs @ split_on d ys"
proof (induction xs)
  case Nil
  show ?case by simp
next
  case (Cons c xs)
  obtain w ws where w: "split_on d xs = w # ws"
    using split_on_not_Nil[of d xs] by (cases "split_on d xs") auto
  with Cons show ?case by simp
qed

lemma split_on_no_sep: "d \<notin> set xs \<Longrightarrow> split_on d xs = [xs]"
  by (induction xs) auto

lemma slide_headers_Nil: "slide_headers [] = []"
  by (simp add: slide_headers_def text_lines_def is_header_line_def)

lemma slide_headers_newline:
  "slide_headers (xs @ ''\<newline>'' @ ys) = slide_headers xs @ slide_headers ys"
  by (simp add: slide_headers_def text_lines_def split_on_append)

lemma slide_headers_closed:
  assumes "nl_closed c"
  shows "slide_headers (c @ r) = slide_headers c @ slide_headers r"
proof (cases "c = []")
  case True
  then show ?thesis by (simp add: slide_headers_Nil)
next
  case False
  with assms obtain c' where c: "c = c' @ ''\<newline>''" by (auto simp: nl_closed_def)
  have "slide_headers (c' @ ''\<newline>'' @ []) = slide_headers c' @ slide_headers []"
    by (rule slide_headers_newline)
  then have a: "slide_headers c = slide_headers c'" by (simp add: c slide_headers_Nil)
  have "slide_headers (c' @ ''\<newline>'' @ r) = slide_headers c' @ slide_headers r"
    by (rule slide_headers_newline)
  then show ?thesis by (simp add: c a[unfolded c])
qed

lemma nl_closed_append: "nl_closed a \<Longrightarrow> nl_closed b \<Longrightarrow> nl_closed (a @ b)"
proof (cases "b = []")
  case True
  assume "nl_closed a" then show ?thesis using True by simp
next
  case False
  assume "nl_closed b"
  with False obtain b' where "b = b' @ ''\<newline>''" by (auto simp: nl_closed_def)
  then have "a @ b = (a @ b') @ ''\<newline>''" by simp
  then show ?thesis unfolding nl_closed_def by blast
qed

lemma nl_closed_concat: "\<forall>c \<in> set cs. nl_closed c \<Longrightarrow> nl_closed (concat cs)"
  by (induction cs) (auto simp: nl_closed_append, simp add: nl_closed_def)

lemma slide_headers_concat:
  "\<forall>c \<in> set cs. nl_closed c \<Longrightarrow> slide_headers (concat cs) = concat (map slide_headers cs)"
  by (induction cs) (simp_all add: slide_headers_Nil slide_headers_closed)

lemma nl_closed_table_row: "nl_closed (table_row [] cells)"
proof -
  have "nl_closed ((''Tabela: '' @ join '' | '' (map strip cells)) @ ''\<newline>'')"
    unfolding nl_closed_def by blast
  then show ?thesis by (simp add: table_row_def Let_def nl_closed_def)
qed

lemma shape_step_parts:
  "shape_step [] sh =
     (case shape_text sh of
        Some t \<Rightarrow> if strip t \<noteq> [] then t @ ''\<newline>'' else []
      | None \<Rightarrow> []) @
     (case shape_table sh of
        Some rows \<Rightarrow> concat (map (table_row []) rows)
      | None \<Rightarrow> [])"
  by (simp add: shape_step_def Let_def foldl_table_row split: option.splits)

lemma nl_closed_shape_step: "nl_closed (shape_step [] sh)"
proof -
  have "nl_closed (case shape_text sh of
        Some t \<Rightarrow> if strip t \<noteq> [] then t @ ''\<newline>'' else []
      | None \<Rightarrow> [])"
    by (auto simp: nl_closed_def split: option.splits)
  moreover have "nl_closed (case shape_table sh of
        Some rows \<Rightarrow> concat (map (table_row []) rows)
      | None \<Rightarrow> [])"
  proof (cases "shape_table sh")
    case None
    then show ?thesis by (simp add: nl_closed_def)
  next
    case (Some rows)
    have "nl_closed (concat (map (table_row []) rows))"
      by (rule nl_closed_concat) (simp add: nl_closed_table_row)
    with Some show ?thesis by simp
  qed
  ultimately show ?thesis unfolding shape_step_parts by (rule nl_closed_append)
qed

lemma digit_char_is_digit: "d < 10 \<Longrightarrow> is_digit (digit_char d)"
  by (auto simp: digit_char_def is_digit_def nth_Cons split: nat.splits)

lemma str_nat_digits: "list_all is_digit (str_nat n)"
proof (induction n rule: str_nat.induct)
  case (1 n)
  show ?case
  proof (cases "n < 10")
    case True
    then show ?thesis by (subst str_nat.simps) (simp add: digit_char_is_digit)
  next
    case False
    with "1.IH" show ?thesis by (subst str_nat.simps) (simp add: digit_char_is_digit)
  qed
qed

lemma dec_value_snoc: "dec_value (ds @ [c]) = 10 * dec_value ds + (of_char c - 48)"
  by (simp add: dec_value_def)

lemma dec_value_str_nat: "dec_value (str_nat n) = n"
proof (induction n rule: str_nat.induct)
  case (1 n)
  show ?case
  proof (cases "n < 10")
    case True
    then show ?thesis
      by (subst str_nat.simps) (simp add: dec_value_def digit_char_code)
  next
    case False
    then have "dec_value (str_nat n) =
        10 * dec_value (str_nat (n div 10)) + (of_char (digit_char (n mod 10)) - 48)"
      by (subst str_nat.simps) (simp add: dec_value_snoc)
    also have "\<dots> = 10 * (n div 10) + n mod 10"
      using False "1.IH" by (simp add: digit_char_code)
    finally show ?thesis by simp
  qed
qed

lemma is_digit_not_newline: "is_digit c \<Longrightarrow> c \<noteq> CHR 0x0A"
  by (auto simp: is_digit_def)

lemma affix_parts:
  assumes "length P = 10" and "length S = 4" and "ds \<noteq> []"
  shows "14 < length (P @ ds @ S)"
    and "take 10 (P @ ds @ S) = P"
    and "drop (length (P @ ds @ S) - 4) (P @ ds @ S) = S"
    and "take (length (P @ ds @ S) - 14) (drop 10 (P @ ds @ S)) = ds"
  using assms by simp_all

lemma header_line_shape:
  assumes "ds \<noteq> []" and "list_all is_digit ds"
  shows "is_header_line (''=== SLIDE '' @ ds @ '' ==='')"
    and "header_number (''=== SLIDE '' @ ds @ '' ==='') = dec_value ds"
    and "CHR 0x0A \<notin> set (''=== SLIDE '' @ ds @ '' ==='')"
proof -
  have P: "length ''=== SLIDE '' = 10" and S: "length '' ==='' = 4" by simp_all
  note a = affix_parts[OF P S assms(1)]
  show "is_header_line (''=== SLIDE '' @ ds @ '' ==='')"
    unfolding is_header_line_def using a assms(2) by (simp only: simp_thms)
  show "header_number (''=== SLIDE '' @ ds @ '' ==='') = dec_value ds"
    unfolding header_number_def by (simp only: a)
  from assms(2) have "\<forall>c \<in> set ds. c \<noteq> CHR 0x0A"
    by (auto simp: list_all_iff dest: is_digit_not_newline)
  then show "CHR 0x0A \<notin> set (''=== SLIDE '' @ ds @ '' ==='')" by auto
qed

lemma slide_headers_header_line:
  "slide_headers (''=== SLIDE '' @ str_nat i @ '' ==='') = [i]"
proof -
  note h = header_line_shape[OF str_nat_not_Nil str_nat_digits, of i]
  from h(3) have "text_lines (''=== SLIDE '' @ str_nat i @ '' ==='') =
      [''=== SLIDE '' @ str_nat i @ '' ===''] "
    unfolding text_lines_def by (rule split_on_no_sep)
  with h(1,2) show ?thesis by (simp add: slide_headers_def dec_value_str_nat)
qed

lemma slide_header_split:
  "slide_header i = [] @ ''\<newline>'' @ ((''=== SLIDE '' @ str_nat i @ '' ==='') @ ''\<newline>'' @ [])"
  by (simp add: slide_header_def)

lemma slide_headers_slide_header: "slide_headers (slide_header i) = [i]"
  unfolding slide_header_split
  by (simp only: slide_headers_newline slide_headers_Nil slide_headers_header_line) simp

lemma nl_closed_slide_header: "nl_closed (slide_header i)"
proof -
  have "slide_header i = (''\<newline>=== SLIDE '' @ str_nat i @ '' ==='') @ ''\<newline>''"
    by (simp add: slide_header_def)
  then show ?thesis unfolding nl_closed_def by blast
qed

lemma slide_headers_slide_content:
  "slide_headers (slide_content i shapes) =
     i # concat (map (\<lambda>sh. slide_headers (shape_step [] sh)) shapes)"
proof -
  have "slide_headers (concat (map (shape_step []) shapes)) =
      concat (map slide_headers (map (shape_step []) shapes))"
    by (rule slide_headers_concat) (simp add: nl_closed_shape_step)
  then show ?thesis
    by (simp add: slide_content_eq slide_headers_closed[OF nl_closed_slide_header]
        slide_headers_slide_header comp_def)
qed

lemma slide_headers_join:
  "slide_headers (join ''\<newline>'' xs) = concat (map slide_headers xs)"
proof (induction "''\<newline>''" xs rule: join.induct)
  case 1
  show ?case by (simp add: slide_headers_Nil)
next
  case (2 x)
  show ?case by simp
next
  case (3 x y ys)
  have "slide_headers (join ''\<newline>'' (x # y # ys)) =
      slide_headers (x @ ''\<newline>'' @ join ''\<newline>'' (y # ys))" by simp
  also have "\<dots> = slide_headers x @ slide_headers (join ''\<newline>'' (y # ys))"
    by (rule slide_headers_newline)
  finally show ?case using 3 by simp
qed

lemma processar_pptx_result:
  assumes "Presentation caminho_arquivo = Inr slides"
  shows "processar_pptx Presentation caminho_arquivo =
    ((Some \<lparr>doc_text = join ''\<newline>''
               (map (\<lambda>k. slide_header (Suc k) @ concat (map (shape_step []) (slides ! k)))
                  [0..<length slides]),
            doc_metadata =
              [(''file_name'', MStr (basename caminho_arquivo)),
               (''file_type'', MStr ''pptx''),
               (''total_slides'', MInt (int (length slides))),
               (''source'', MStr ''presentation'')]\<rparr>,
      length slides), [])"
  using assms unfolding processar_pptx_def slides_texto_eq by simp

lemma slide_headers_slides_texto:
  "slide_headers (join ''\<newline>'' (map (\<lambda>(i, sl). slide_content i sl) (enumerate j slides))) =
     concat (map (\<lambda>(i, sl). i # concat (map (\<lambda>sh. slide_headers (shape_step [] sh)) sl))
               (enumerate j slides))"
  by (simp add: slide_headers_join comp_def case_prod_unfold slide_headers_slide_content)

lemma headers_of_plain_slides:
  assumes "\<forall>sl \<in> set slides. \<forall>sh \<in> set sl. slide_headers (shape_step [] sh) = []"
  shows "concat (map (\<lambda>(i, sl). i # concat (map (\<lambda>sh. slide_headers (shape_step [] sh)) sl))
               (enumerate j slides)) = [j..<j + length slides]"
  using assms
proof (induction slides arbitrary: j)
  case Nil
  show ?case by simp
next
  case (Cons sl slides)
  from Cons.prems have a: "concat (map (\<lambda>sh. slide_headers (shape_step [] sh)) sl) = []"
    by simp
  from Cons.prems have "\<forall>sl \<in> set slides. \<forall>sh \<in> set sl. slide_headers (shape_step [] sh) = []"
    by simp
  from Cons.IH[OF this, of "Suc j"]
  have i: "concat (map (\<lambda>(i, sl). i # concat (map (\<lambda>sh. slide_headers (shape_step [] sh)) sl))
               (enumerate (Suc j) slides)) = [Suc j..<Suc j + length slides]" .
  have u: "[j..<j + length (sl # slides)] = j # [Suc j..<Suc j + length slides]"
    by (simp add: upt_conv_Cons del: upt_Suc)
  show ?case unfolding u by (simp add: a i del: upt_Suc)
qed

lemma str_nat_2: "str_nat 2 = ''2''"
  by (simp add: str_nat.simps digit_char_def)

section \<open>The claims on the presentation extractor\<close>

text \<open>
  Claim C1. The specification says that a table row whose cells are all empty after
  trimming is never put out, and that a row with a non-empty cell is put out as the
  trimmed cells joined by \<open>" | "\<close>. \<open>table_row_emits\<close> above says what the loop does: a row
  is put out, as \<open>Tabela:\<close> followed by the joined trimmed cells, when it has two cells or
  more or a cell that is not blank. The test of line 105 reads the joined text, which
  holds a separator as soon as the row has two cells: the presentation whose only slide
  holds one table with one row of two empty cells gets the line \<open>Tabela:  | \<close>.
\<close>

theorem processar_pptx_emits_empty_row:
  "processar_pptx
     (\<lambda>p. Inr [[\<lparr>shape_text = None, shape_table = Some [[[], []]]\<rparr>]]) ''deck.pptx'' =
   ((Some \<lparr>doc_text = ''\<newline>=== SLIDE 1 ===\<newline>Tabela:  | \<newline>'',
           doc_metadata =
             [(''file_name'', MStr ''deck.pptx''), (''file_type'', MStr ''pptx''),
              (''total_slides'', MInt 1), (''source'', MStr ''presentation'')]\<rparr>,
     1), [])"
  by (simp add: processar_pptx_def enumerate_eq_zip slide_content_def slide_header_def
      str_nat.simps digit_char_def shape_step_def table_row_def strip_def is_space_def
      basename_def)

text \<open>
  Claim C2, as the code has it. When the presentation parses, \<open>processar_pptx\<close> returns
  exactly one document and the number of slides, and shows nothing. Its text is the
  slide sections in the order of the slides, each opening with its header
  (\<open>processar_pptx_result\<close>), and the header lines read off the text are, slide after
  slide, the header of the slide followed by whatever header lines the shapes of that
  slide put out themselves (\<open>slide_headers_slides_texto\<close>). So when no shape of the
  presentation puts out a line that reads as a header, the headers of the text are
  \<open>SLIDE 1\<close> up to \<open>SLIDE n\<close> for \<open>n\<close> slides: one per slide, ascending from 1, as many as
  slides. The metadata hold the base name of the file, the file type \<open>pptx\<close>, the
  number of slides and the source \<open>presentation\<close>; for an entry of the extracted
  directory, whose name holds no slash, the base name of its path is the entry itself
  (\<open>basename_join\<close>).
\<close>

theorem processar_pptx_headers:
  assumes "Presentation caminho_arquivo = Inr slides"
    and "\<forall>sl \<in> set slides. \<forall>sh \<in> set sl. slide_headers (shape_step [] sh) = []"
  shows "\<exists>doc. processar_pptx Presentation caminho_arquivo = ((Some doc, length slides), []) \<and>
           slide_headers (doc_text doc) = [1..<Suc (length slides)] \<and>
           doc_metadata doc =
             [(''file_name'', MStr (basename caminho_arquivo)),
              (''file_type'', MStr ''pptx''),
              (''total_slides'', MInt (int (length slides))),
              (''source'', MStr ''presentation'')]"
proof -
  have "slide_headers (join ''\<newline>'' (map (\<lambda>(i, sl). slide_content i sl) (enumerate 1 slides))) =
      [1..<Suc (length slides)]"
    unfolding slide_headers_slides_texto headers_of_plain_slides[OF assms(2)] by simp
  with assms(1) show ?thesis by (simp add: processar_pptx_def)
qed

theorem processar_pptx_headers_witness:
  "processar_pptx
     (\<lambda>p. Inr [[\<lparr>shape_text = Some ''Title '', shape_table = None\<rparr>],
               [\<lparr>shape_text = None, shape_table = Some [[''a '', '' b''], ['' '']]\<rparr>]])
     ''tmp/extracted/deck.pptx'' =
   ((Some \<lparr>doc_text =
             ''\<newline>=== SLIDE 1 ===\<newline>Title \<newline>\<newline>\<newline>=== SLIDE 2 ===\<newline>Tabela: a | b\<newline>'',
           doc_metadata =
             [(''file_name'', MStr ''deck.pptx''), (''file_type'', MStr ''pptx''),
              (''total_slides'', MInt 2), (''source'', MStr ''presentation'')]\<rparr>,
     2), []) \<and>
   slide_headers
     ''\<newline>=== SLIDE 1 ===\<newline>Title \<newline>\<newline>\<newline>=== SLIDE 2 ===\<newline>Tabela: a | b\<newline>'' =
   [1, 2]"
proof -
  let ?P = "\<lambda>p :: string. (Inr [[\<lparr>shape_text = Some ''Title '', shape_table = None\<rparr>],
               [\<lparr>shape_text = None, shape_table = Some [[''a '', '' b''], ['' '']]\<rparr>]]
             :: exn + slide list)"
  have r: "processar_pptx ?P ''tmp/extracted/deck.pptx'' =
   ((Some \<lparr>doc_text =
             ''\<newline>=== SLIDE 1 ===\<newline>Title \<newline>\<newline>\<newline>=== SLIDE 2 ===\<newline>Tabela: a | b\<newline>'',
           doc_metadata =
             [(''file_name'', MStr ''deck.pptx''), (''file_type'', MStr ''pptx''),
              (''total_slides'', MInt 2), (''source'', MStr ''presentation'')]\<rparr>,
     2), [])"
    by (simp add: processar_pptx_def enumerate_eq_zip slide_content_def slide_header_def
        str_nat.simps digit_char_def shape_step_def table_row_def strip_def is_space_def
        basename_def)
  have h: "\<forall>sl \<in> set [[\<lparr>shape_text = Some ''Title '', shape_table = None\<rparr>],
               [\<lparr>shape_text = None, shape_table = Some [[''a '', '' b''], ['' '']]\<rparr>]].
           \<forall>sh \<in> set sl. slide_headers (shape_step [] sh) = []"
    by (simp add: shape_step_def table_row_def strip_def is_space_def slide_headers_def
        text_lines_def is_header_line_def)
  from processar_pptx_headers[of ?P "''tmp/extracted/deck.pptx''", OF refl h] r
  show ?thesis by (simp add: upt_rec)
qed

text \<open>
  The text of a shape is copied as it is: a shape whose text reads \<open>=== SLIDE 2 ===\<close>
  gives a deck of one slide a text with two headers.
\<close>

theorem header_in_shape_text:
  "\<not> (\<forall>Presentation caminho_arquivo slides doc n evs.
        Presentation caminho_arquivo = Inr slides \<and>
        processar_pptx Presentation caminho_arquivo = ((Some doc, n), evs) \<longrightarrow>
        slide_headers (doc_text doc) = [1..<Suc (length slides)])"
proof
  assume a: "\<forall>Presentation caminho_arquivo slides doc n evs.
        Presentation caminho_arquivo = Inr slides \<and>
        processar_pptx Presentation caminho_arquivo = ((Some doc, n), evs) \<longrightarrow>
        slide_headers (doc_text doc) = [1..<Suc (length slides)]"
  let ?slides = "[[\<lparr>shape_text = Some ''=== SLIDE 2 ==='', shape_table = None\<rparr>]]"
  let ?text = "join ''\<newline>'' (map (\<lambda>(i, sl). slide_content i sl) (enumerate 1 ?slides))"
  have s: "shape_step [] \<lparr>shape_text = Some ''=== SLIDE 2 ==='', shape_table = None\<rparr> =
      (''=== SLIDE '' @ str_nat 2 @ '' ==='') @ ''\<newline>'' @ []"
    by (simp add: shape_step_def strip_def is_space_def str_nat_2)
  have "slide_headers (shape_step [] \<lparr>shape_text = Some ''=== SLIDE 2 ==='', shape_table = None\<rparr>) = [2]"
    unfolding s by (simp only: slide_headers_newline slide_headers_header_line slide_headers_Nil) simp
  then have t: "slide_headers ?text = [1, 2]"
    unfolding slide_headers_slides_texto by (simp add: enumerate_eq_zip)
  have "slide_headers ?text = [1..<Suc (length ?slides)]"
    using a[rule_format, of "\<lambda>p. Inr ?slides" "''deck.pptx''" ?slides
        "\<lparr>doc_text = ?text,
          doc_metadata =
            [(''file_name'', MStr (basename ''deck.pptx'')), (''file_type'', MStr ''pptx''),
             (''total_slides'', MInt (int (length ?slides))),
             (''source'', MStr ''presentation'')]\<rparr>" "length ?slides" "[]"]
    by (simp add: processar_pptx_def)
  with t show False by (simp add: upt_rec)
qed

section \<open>The credential gate\<close>

lemma os_environ_set_key:
  "os_environ_set env ''OPENAI_API_KEY'' v =
     (if CHR 0x00 \<in> set v then Inl ''embedded null byte''
      else Inr (env(''OPENAI_API_KEY'' \<mapsto> v)))"
  by (simp add: os_environ_set_def)

lemma configurar_sistema_environ:
  "configurar_sistema be p = ((ok, p'), evs) \<Longrightarrow> environ p' = environ p"
  by (auto simp: configurar_sistema_def split: option.splits sum.splits)

lemma configurar_sistema_cases:
  "configurar_sistema be p =
     (case HuggingFaceEmbedding be of
        None \<Rightarrow>
          (case OpenAI be ''gpt-3.5-turbo'' (1 / 2) of
             Inl e \<Rightarrow> ((False, p), [St_error (''Erro na configuracao: '' @ e)])
           | Inr l \<Rightarrow> ((True, p\<lparr>Settings_llm := Some l\<rparr>), []))
      | Some mk \<Rightarrow>
          (case mk ''sentence-transformers/all-MiniLM-L6-v2'' of
             Inl e \<Rightarrow> ((False, p), [St_error (''Erro na configuracao: '' @ e)])
           | Inr em \<Rightarrow>
               (case OpenAI be ''gpt-3.5-turbo'' (1 / 2) of
                  Inl e \<Rightarrow>
                    ((False, p\<lparr>Settings_embed_model := Some em\<rparr>),
                     [St_error (''Erro na configuracao: '' @ e)])
                | Inr l \<Rightarrow>
                    ((True, p\<lparr>Settings_embed_model := Some em, Settings_llm := Some l\<rparr>), []))))"
  by (simp add: configurar_sistema_def split: option.splits sum.splits)

text \<open>
  Claim C3, as the code has it. With the session not yet configured and the button
  pressed, the credential passes the check of line 252 exactly when it is not empty and
  starts with \<open>sk-\<close>. A credential that fails the check is rejected: the run returns
  \<open>False\<close>, the flag is \<open>False\<close>, the process state is the one before and the last message
  is an error. A credential that passes and holds no null character is stored in the
  environment variable \<open>OPENAI_API_KEY\<close>; the flag becomes \<open>True\<close> exactly when
  \<open>configurar_sistema\<close>, called on the process state holding the new variable, returns
  \<open>True\<close>. A credential that passes and holds a null character is refused by the
  assignment of line 253: the exception leaves the script, with the flag at \<open>False\<close> and
  the process state the one before.
\<close>

theorem modal_api_key_credential:
  assumes "api_key_configured s \<noteq> Some True"
    and "config_button inp"
    and "modal_api_key be inp s p = ((out, s', p'), evs)"
  shows "(api_key_configured s' = Some True \<longleftrightarrow>
            api_key_input inp \<noteq> [] \<and> startswith (api_key_input inp) ''sk-'' \<and>
            CHR 0x00 \<notin> set (api_key_input inp) \<and>
            fst (fst (configurar_sistema be
              (p\<lparr>environ := (environ p)(''OPENAI_API_KEY'' \<mapsto> api_key_input inp)\<rparr>)))) \<and>
         (api_key_input inp \<noteq> [] \<and> startswith (api_key_input inp) ''sk-'' \<and>
          CHR 0x00 \<notin> set (api_key_input inp) \<longrightarrow>
            environ p' = (environ p)(''OPENAI_API_KEY'' \<mapsto> api_key_input inp)) \<and>
         (api_key_input inp \<noteq> [] \<and> startswith (api_key_input inp) ''sk-'' \<and>
          CHR 0x00 \<in> set (api_key_input inp) \<longrightarrow>
            out = Uncaught ''embedded null byte'' \<and> api_key_configured s' = Some False \<and>
            p' = p) \<and>
         (\<not> (api_key_input inp \<noteq> [] \<and> startswith (api_key_input inp) ''sk-'') \<longrightarrow>
            out = Returned False \<and> api_key_configured s' = Some False \<and> p' = p \<and>
            (\<exists>m. last evs = St_error m))"
proof (cases "api_key_input inp \<noteq> [] \<and> startswith (api_key_input inp) ''sk-''")
  case False
  with assms show ?thesis
    by (auto simp: modal_api_key_def Let_def split: if_splits)
next
  case True
  show ?thesis
  proof (cases "CHR 0x00 \<in> set (api_key_input inp)")
    case nul: True
    with assms True show ?thesis
      by (auto simp: modal_api_key_def Let_def os_environ_set_key split: if_splits)
  next
    case nonul: False
    obtain ok p2 evs2 where c: "configurar_sistema be
        (p\<lparr>environ := (environ p)(''OPENAI_API_KEY'' \<mapsto> api_key_input inp)\<rparr>) = ((ok, p2), evs2)"
      by (metis surj_pair)
    from configurar_sistema_environ[OF c]
    have e: "environ p2 = (environ p)(''OPENAI_API_KEY'' \<mapsto> api_key_input inp)" by simp
    from assms True nonul c e show ?thesis
      by (cases ok) (auto simp: modal_api_key_def Let_def os_environ_set_key split: if_splits)
  qed
qed

theorem modal_api_key_credential_witness:
  "modal_api_key \<lparr>HuggingFaceEmbedding = None, OpenAI = \<lambda>m t. Inr ()\<rparr>
     \<lparr>api_key_input = ''sk-validlookingkey'', config_button = True, uploaded_file = None,
      reload_button = False, pergunta_input = [], enviar_pergunta = False\<rparr>
     \<lparr>api_key_configured = Some False, documentos_processados = None,
      query_engine = (None :: unit option), num_documentos = 0, chat_history = None\<rparr>
     \<lparr>environ = Map.empty, Settings_embed_model = (None :: unit option), Settings_llm = None\<rparr> =
   ((Rerun,
     \<lparr>api_key_configured = Some True, documentos_processados = None,
      query_engine = None, num_documentos = 0, chat_history = None\<rparr>,
     \<lparr>environ = [''OPENAI_API_KEY'' \<mapsto> ''sk-validlookingkey''],
      Settings_embed_model = None, Settings_llm = Some ()\<rparr>),
    [St_markdown ''### Configuracao Inicial'',
     St_info ''Para usar o sistema, insira sua OpenAI API Key:'',
     St_success ''Sistema configurado com sucesso!'']) \<and>
   fst (snd (fst (modal_api_key \<lparr>HuggingFaceEmbedding = None, OpenAI = \<lambda>m t. Inr ()\<rparr>
     \<lparr>api_key_input = ''abc123'', config_button = True, uploaded_file = None,
      reload_button = False, pergunta_input = [], enviar_pergunta = False\<rparr>
     \<lparr>api_key_configured = Some False, documentos_processados = None,
      query_engine = (None :: unit option), num_documentos = 0, chat_history = None\<rparr>
     \<lparr>environ = Map.empty, Settings_embed_model = (None :: unit option),
      Settings_llm = (None :: unit option)\<rparr>))) =
     \<lparr>api_key_configured = Some False, documentos_processados = None,
      query_engine = None, num_documentos = 0, chat_history = None\<rparr>"
  using modal_api_key_credential
    [of "\<lparr>api_key_configured = Some False, documentos_processados = None,
          query_engine = (None :: unit option), num_documentos = 0, chat_history = None\<rparr>"
        "\<lparr>api_key_input = ''sk-validlookingkey'', config_button = True, uploaded_file = None,
          reload_button = False, pergunta_input = [], enviar_pergunta = False\<rparr>"
        "\<lparr>HuggingFaceEmbedding = None, OpenAI = \<lambda>m t. Inr ()\<rparr>"
        "\<lparr>environ = Map.empty, Settings_embed_model = (None :: unit option),
          Settings_llm = (None :: unit option)\<rparr>"]
  by (simp add: modal_api_key_def configurar_sistema_def startswith_def os_environ_set_def)

text \<open>
  The flag does not follow from the prefix alone: with a backend whose language model
  cannot be built, \<open>sk-validlookingkey\<close> leaves the session unconfigured.
\<close>

theorem valid_prefix_not_configured:
  "\<not> (\<forall>(be :: (unit, unit) backend) inp (s :: unit session) p.
        api_key_configured s \<noteq> Some True \<and> config_button inp \<and>
        api_key_input inp \<noteq> [] \<and> startswith (api_key_input inp) ''sk-'' \<longrightarrow>
        api_key_configured (fst (snd (fst (modal_api_key be inp s p)))) = Some True)"
proof
  assume a: "\<forall>(be :: (unit, unit) backend) inp (s :: unit session) p.
        api_key_configured s \<noteq> Some True \<and> config_button inp \<and>
        api_key_input inp \<noteq> [] \<and> startswith (api_key_input inp) ''sk-'' \<longrightarrow>
        api_key_configured (fst (snd (fst (modal_api_key be inp s p)))) = Some True"
  show False
    using a[rule_format,
      of "\<lparr>api_key_configured = Some False, documentos_processados = None,
          query_engine = None, num_documentos = 0, chat_history = None\<rparr>"
        "\<lparr>api_key_input = ''sk-validlookingkey'', config_button = True, uploaded_file = None,
          reload_button = False, pergunta_input = [], enviar_pergunta = False\<rparr>"
        "\<lparr>HuggingFaceEmbedding = None, OpenAI = \<lambda>m t. Inl ''connection refused''\<rparr>"
        "\<lparr>environ = Map.empty, Settings_embed_model = None, Settings_llm = None\<rparr>"]
    by (simp add: modal_api_key_def configurar_sistema_def startswith_def os_environ_set_def)
qed

text \<open>
  Claim C4, as the code has it. With the session not yet configured and the button
  pressed, each of the failures is caught: the run returns \<open>False\<close>, the flag is \<open>False\<close>,
  nothing else of the session changes, and the error is shown last. When the
  credential is empty or lacks the prefix, the process state is the one before. When
  the credential passes the check, holds no null character, and a constructor of the
  backend raises, the error of the backend is shown as well and the process state is
  the one before but for the environment variable \<open>OPENAI_API_KEY\<close>, which holds the
  credential (line 253 has stored it before the backend was configured, and nothing
  takes it back), and for \<open>Settings.embed_model\<close>, which holds the embedding model when
  that one was built before the language model failed; \<open>Settings.llm\<close> is the one before.
\<close>

theorem modal_api_key_failed_attempt:
  assumes "api_key_configured s \<noteq> Some True"
    and "config_button inp"
  shows "(api_key_input inp = [] \<or> \<not> startswith (api_key_input inp) ''sk-'' \<longrightarrow>
            modal_api_key be inp s p =
              ((Returned False, s\<lparr>api_key_configured := Some False\<rparr>, p),
               [St_markdown ''### Configuracao Inicial'',
                St_info ''Para usar o sistema, insira sua OpenAI API Key:'',
                St_error (''Por favor, insira uma API Key valida (deve comecar com '' @
                          [CHR 0x27] @ ''sk-'' @ [CHR 0x27] @ '')'')])) \<and>
         (api_key_input inp \<noteq> [] \<and> startswith (api_key_input inp) ''sk-'' \<and>
          CHR 0x00 \<notin> set (api_key_input inp) \<longrightarrow>
            (\<forall>mk e.
               HuggingFaceEmbedding be = Some mk \<and>
               mk ''sentence-transformers/all-MiniLM-L6-v2'' = Inl e \<longrightarrow>
               modal_api_key be inp s p =
                 ((Returned False, s\<lparr>api_key_configured := Some False\<rparr>,
                   p\<lparr>environ := (environ p)(''OPENAI_API_KEY'' \<mapsto> api_key_input inp)\<rparr>),
                  [St_markdown ''### Configuracao Inicial'',
                   St_info ''Para usar o sistema, insira sua OpenAI API Key:'',
                   St_error (''Erro na configuracao: '' @ e),
                   St_error ''Erro na configuracao. Verifique sua API Key.''])) \<and>
            (\<forall>mk em e.
               HuggingFaceEmbedding be = Some mk \<and>
               mk ''sentence-transformers/all-MiniLM-L6-v2'' = Inr em \<and>
               OpenAI be ''gpt-3.5-turbo'' (1 / 2) = Inl e \<longrightarrow>
               modal_api_key be inp s p =
                 ((Returned False, s\<lparr>api_key_configured := Some False\<rparr>,
                   p\<lparr>environ := (environ p)(''OPENAI_API_KEY'' \<mapsto> api_key_input inp),
                     Settings_embed_model := Some em\<rparr>),
                  [St_markdown ''### Configuracao Inicial'',
                   St_info ''Para usar o sistema, insira sua OpenAI API Key:'',
                   St_error (''Erro na configuracao: '' @ e),
                   St_error ''Erro na configuracao. Verifique sua API Key.''])) \<and>
            (\<forall>e.
               HuggingFaceEmbedding be = None \<and>
               OpenAI be ''gpt-3.5-turbo'' (1 / 2) = Inl e \<longrightarrow>
               modal_api_key be inp s p =
                 ((Returned False, s\<lparr>api_key_configured := Some False\<rparr>,
                   p\<lparr>environ := (environ p)(''OPENAI_API_KEY'' \<mapsto> api_key_input inp)\<rparr>),
                  [St_markdown ''### Configuracao Inicial'',
                   St_info ''Para usar o sistema, insira sua OpenAI API Key:'',
                   St_error (''Erro na configuracao: '' @ e),
                   St_error ''Erro na configuracao. Verifique sua API Key.''])))"
proof -
  have s0: "(if api_key_configured s = None then s\<lparr>api_key_configured := Some False\<rparr> else s) =
      s\<lparr>api_key_configured := Some False\<rparr>"
    using assms(1) by (cases "api_key_configured s") auto
  have n: "api_key_configured (s\<lparr>api_key_configured := Some False\<rparr>) \<noteq> Some True" by simp
  show ?thesis
    using assms(2) n
    by (auto simp: modal_api_key_def Let_def s0 os_environ_set_key configurar_sistema_cases)
qed

theorem modal_api_key_failed_attempt_witness:
  "modal_api_key
     \<lparr>HuggingFaceEmbedding = Some (\<lambda>n. Inr ()), OpenAI = \<lambda>m t. Inl ''connection refused''\<rparr>
     \<lparr>api_key_input = ''sk-validlookingkey'', config_button = True, uploaded_file = None,
      reload_button = False, pergunta_input = [], enviar_pergunta = False\<rparr>
     \<lparr>api_key_configured = Some False, documentos_processados = None,
      query_engine = (None :: unit option), num_documentos = 0, chat_history = None\<rparr>
     \<lparr>environ = Map.empty, Settings_embed_model = None, Settings_llm = (None :: unit option)\<rparr> =
   ((Returned False,
     \<lparr>api_key_configured = Some False, documentos_processados = None,
      query_engine = None, num_documentos = 0, chat_history = None\<rparr>,
     \<lparr>environ = [''OPENAI_API_KEY'' \<mapsto> ''sk-validlookingkey''],
      Settings_embed_model = Some (), Settings_llm = None\<rparr>),
    [St_markdown ''### Configuracao Inicial'',
     St_info ''Para usar o sistema, insira sua OpenAI API Key:'',
     St_error ''Erro na configuracao: connection refused'',
     St_error ''Erro na configuracao. Verifique sua API Key.''])"
  using modal_api_key_failed_attempt
    [of "\<lparr>api_key_configured = Some False, documentos_processados = None,
          query_engine = (None :: unit option), num_documentos = 0, chat_history = None\<rparr>"
        "\<lparr>api_key_input = ''sk-validlookingkey'', config_button = True, uploaded_file = None,
          reload_button = False, pergunta_input = [], enviar_pergunta = False\<rparr>"
        "\<lparr>HuggingFaceEmbedding = Some (\<lambda>n. Inr ()), OpenAI = \<lambda>m t. Inl ''connection refused''\<rparr>"
        "\<lparr>environ = Map.empty, Settings_embed_model = None, Settings_llm = (None :: unit option)\<rparr>"]
  by (simp add: startswith_def)

text \<open>
  A failed attempt can change the process state: the same run leaves the credential in
  the environment.
\<close>

theorem failed_attempt_changes_environ:
  "\<not> (\<forall>(be :: (unit, unit) backend) inp (s :: unit session) p s' p' evs.
        api_key_configured s \<noteq> Some True \<and> config_button inp \<and>
        modal_api_key be inp s p = ((Returned False, s', p'), evs) \<longrightarrow> p' = p)"
proof
  assume a: "\<forall>(be :: (unit, unit) backend) inp (s :: unit session) p s' p' evs.
        api_key_configured s \<noteq> Some True \<and> config_button inp \<and>
        modal_api_key be inp s p = ((Returned False, s', p'), evs) \<longrightarrow> p' = p"
  have "\<lparr>environ = [''OPENAI_API_KEY'' \<mapsto> ''sk-validlookingkey''],
      Settings_embed_model = None, Settings_llm = None\<rparr> =
     (\<lparr>environ = Map.empty, Settings_embed_model = None, Settings_llm = None\<rparr> :: (unit, unit) process)"
    by (rule a[rule_format,
      of "\<lparr>api_key_configured = Some False, documentos_processados = None,
          query_engine = None, num_documentos = 0, chat_history = None\<rparr>"
        "\<lparr>api_key_input = ''sk-validlookingkey'', config_button = True, uploaded_file = None,
          reload_button = False, pergunta_input = [], enviar_pergunta = False\<rparr>"
        "\<lparr>HuggingFaceEmbedding = None, OpenAI = \<lambda>m t. Inl ''connection refused''\<rparr>"])
      (simp add: modal_api_key_def configurar_sistema_def startswith_def os_environ_set_def)
  then show False by simp
qed

section \<open>Properties of the format dispatcher\<close>

lemma process_files_Cons:
  "process_files fs pasta n i (a # as) acc =
     (fst (process_files fs pasta n (Suc i) as (acc @ fst (process_file fs pasta a))),
      [St_status (''Processando: '' @ a), St_progress (Suc i) n] @
      snd (process_file fs pasta a) @
      snd (process_files fs pasta n (Suc i) as (acc @ fst (process_file fs pasta a))))"
  by (simp split: prod.splits)

lemma process_files_docs:
  "fst (process_files fs pasta n i as acc) =
     acc @ concat (map (\<lambda>a. fst (process_file fs pasta a)) as)"
proof (induction as arbitrary: i acc)
  case Nil
  show ?case by simp
next
  case (Cons a as)
  show ?case by (simp only: process_files_Cons fst_conv Cons.IH) simp
qed

lemma process_files_events:
  "a \<in> set as \<Longrightarrow>
     set (snd (process_file fs pasta a)) \<subseteq> set (snd (process_files fs pasta n i as acc))"
proof (induction as arbitrary: i acc)
  case Nil
  then show ?case by simp
next
  case (Cons b as)
  show ?case
  proof (cases "a = b")
    case True
    then show ?thesis by (simp only: process_files_Cons snd_conv) auto
  next
    case False
    with Cons.prems have "a \<in> set as" by simp
    from Cons.IH[OF this] show ?thesis by (simp only: process_files_Cons snd_conv) auto
  qed
qed

lemma recognized_extension_iff:
  "recognized_extension a \<longleftrightarrow> lower (suffix a) \<in> set formatos_suportados"
  by (simp add: recognized_extension_def formatos_suportados_def lower_def lower_char_def)

lemma arquivos_eq:
  "filter (\<lambda>arquivo. lower (suffix arquivo) \<in> set formatos_suportados) entries =
   filter recognized_extension entries"
  by (rule filter_cong) (simp_all add: recognized_extension_iff)

lemma processar_documentos_eq:
  assumes "fs_listdir fs pasta = Inr entries"
  shows "\<exists>evs. processar_documentos fs pasta =
           Inr ((concat (map (\<lambda>a. fst (process_file fs pasta a)) (filter recognized_extension entries)),
                 length (filter recognized_extension entries)), evs) \<and>
           (\<forall>a \<in> set (filter recognized_extension entries).
              set (snd (process_file fs pasta a)) \<subseteq> set evs)"
proof (cases "filter recognized_extension entries = []")
  case True
  with assms show ?thesis by (simp add: processar_documentos_def arquivos_eq)
next
  case False
  let ?as = "filter recognized_extension entries"
  obtain docs evs where r: "process_files fs pasta (length ?as) 0 ?as [] = (docs, evs)"
    by (metis surj_pair)
  from process_files_docs[of fs pasta "length ?as" 0 ?as "[]"] r
  have d: "docs = concat (map (\<lambda>a. fst (process_file fs pasta a)) ?as)" by simp
  have e: "\<forall>a \<in> set ?as. set (snd (process_file fs pasta a)) \<subseteq> set evs"
    using process_files_events[of _ ?as fs pasta "length ?as" 0 "[]"] r by simp
  from assms False r d e show ?thesis
    by (auto simp: processar_documentos_def arquivos_eq Let_def)
qed

lemma process_file_file_type:
  assumes "recognized_extension a" and "d \<in> set (fst (process_file fs pasta a))"
  shows "map_of (doc_metadata d) ''file_type'' = Some (MStr (drop 1 (lower (suffix a))))"
proof (cases "lower (suffix a) = ''.pptx''")
  case True
  with assms(2) show ?thesis
    by (auto simp: process_file_def processar_pptx_def Let_def split: sum.splits)
next
  case False
  with assms show ?thesis
    by (auto simp: process_file_def update_metadata_def update_conv' Let_def split: sum.splits if_splits)
qed

lemma process_file_unrecognized:
  "\<not> recognized_extension a \<Longrightarrow> process_file fs pasta a = ([], [])"
  by (auto simp: process_file_def recognized_extension_iff formatos_suportados_def Let_def)

lemma process_file_pptx:
  "lower (suffix a) = ''.pptx'' \<Longrightarrow> fs_Presentation fs (os_path_join pasta a) = Inr slides \<Longrightarrow>
     length (fst (process_file fs pasta a)) = 1"
  by (simp add: process_file_def processar_pptx_def Let_def)

lemma process_file_generic:
  "recognized_extension a \<Longrightarrow> lower (suffix a) \<noteq> ''.pptx'' \<Longrightarrow>
   fs_load_data fs (os_path_join pasta a) (lower (suffix a)) = Inr docs \<Longrightarrow>
     fst (process_file fs pasta a) = map (update_metadata a (lower (suffix a))) docs"
  by (auto simp: process_file_def recognized_extension_iff formatos_suportados_def Let_def)

lemma process_file_raises:
  assumes "recognized_extension X"
    and "if lower (suffix X) = ''.pptx''
         then fs_Presentation fs (os_path_join pasta X) = Inl e
         else fs_load_data fs (os_path_join pasta X) (lower (suffix X)) = Inl e"
  shows "process_file fs pasta X =
     ([], [if lower (suffix X) = ''.pptx''
           then St_error (''Erro ao processar PPTX '' @ basename (os_path_join pasta X) @ '': '' @ e)
           else St_warning (''Erro ao processar '' @ X @ '': '' @ e)])"
  using assms
  by (auto simp: process_file_def processar_pptx_def recognized_extension_iff
      formatos_suportados_def Let_def split: if_splits)

lemma process_file_listdir:
  "process_file (fs\<lparr>fs_listdir := l\<rparr>) pasta a = process_file fs pasta a"
  by (simp add: process_file_def Let_def)

lemma process_files_listdir:
  "process_files (fs\<lparr>fs_listdir := l\<rparr>) pasta n i as acc = process_files fs pasta n i as acc"
  by (induction as arbitrary: i acc) (simp_all add: process_file_listdir)

lemma processar_documentos_filtered:
  assumes "fs_listdir fs pasta = Inr entries"
  shows "processar_documentos (fs\<lparr>fs_listdir := \<lambda>d. Inr (filter recognized_extension entries)\<rparr>) pasta =
         processar_documentos fs pasta"
  using assms by (simp add: processar_documentos_def arquivos_eq process_files_listdir Let_def)

lemma process_file_yields:
  assumes "recognized_extension a"
  shows "fst (process_file fs pasta a) \<noteq> [] \<longleftrightarrow>
     (if lower (suffix a) = ''.pptx''
      then \<exists>slides. fs_Presentation fs (os_path_join pasta a) = Inr slides
      else \<exists>d ds. fs_load_data fs (os_path_join pasta a) (lower (suffix a)) = Inr (d # ds))"
proof (cases "lower (suffix a) = ''.pptx''")
  case True
  then show ?thesis
    by (auto simp: process_file_def processar_pptx_def Let_def split: sum.splits)
next
  case False
  with assms have g: "lower (suffix a) \<in> set [''.docx'', ''.pdf'', ''.txt'', ''.md'']"
    by (auto simp: recognized_extension_iff formatos_suportados_def)
  show ?thesis
  proof (cases "fs_load_data fs (os_path_join pasta a) (lower (suffix a))")
    case (Inl e)
    with False g show ?thesis by (simp add: process_file_def Let_def)
  next
    case (Inr docs)
    with False g show ?thesis by (cases docs) (simp_all add: process_file_def Let_def)
  qed
qed

lemma lower_suffix_samples:
  "lower (suffix ''Relatorio.PDF'') = ''.pdf''"
  "lower (suffix ''notes.bak'') = ''.bak''"
  "lower (suffix ''a.pdf'') = ''.pdf''"
  "lower (suffix ''b.txt'') = ''.txt''"
  "lower (suffix ''x.pptx'') = ''.pptx''"
  by code_simp+

lemma recognized_samples:
  "recognized_extension ''Relatorio.PDF''"
  "\<not> recognized_extension ''notes.bak''"
  "recognized_extension ''a.pdf''"
  "recognized_extension ''b.txt''"
  "recognized_extension ''x.pptx''"
  by (simp_all add: recognized_extension_iff lower_suffix_samples formatos_suportados_def)

text \<open>
  Claim C5, as the code has it. The dispatcher keeps exactly the entries whose suffix,
  in lower case, is one of \<open>.pdf\<close>, \<open>.docx\<close>, \<open>.pptx\<close>, \<open>.txt\<close>, \<open>.md\<close>: the documents it
  returns are those of the recognized entries, in the order of the listing, the count is
  the number of recognized entries, and the other entries are ignored without a trace
  (the result, messages included, is the one for the listing without them). Every
  document a recognized file yields has the file type of its extension, in lower case
  and without the dot. The file yields a document exactly when its extractor returns
  one: a presentation that parses, or another file for which the loader returns a list
  that is not empty.
\<close>

theorem processar_documentos_recognized:
  assumes "fs_listdir fs pasta = Inr entries"
  shows "(\<exists>evs. processar_documentos fs pasta =
            Inr ((concat (map (\<lambda>a. fst (process_file fs pasta a))
                           (filter recognized_extension entries)),
                  length (filter recognized_extension entries)), evs)) \<and>
         processar_documentos
           (fs\<lparr>fs_listdir := \<lambda>d. Inr (filter recognized_extension entries)\<rparr>) pasta =
         processar_documentos fs pasta \<and>
         (\<forall>a \<in> set entries. recognized_extension a \<longrightarrow>
            (\<forall>d \<in> set (fst (process_file fs pasta a)).
               map_of (doc_metadata d) ''file_type'' = Some (MStr (drop 1 (lower (suffix a))))) \<and>
            (fst (process_file fs pasta a) \<noteq> [] \<longleftrightarrow>
               (if lower (suffix a) = ''.pptx''
                then \<exists>slides. fs_Presentation fs (os_path_join pasta a) = Inr slides
                else \<exists>d ds. fs_load_data fs (os_path_join pasta a) (lower (suffix a)) =
                              Inr (d # ds))))"
proof (intro conjI ballI impI)
  from processar_documentos_eq[OF assms]
  show "\<exists>evs. processar_documentos fs pasta =
            Inr ((concat (map (\<lambda>a. fst (process_file fs pasta a))
                           (filter recognized_extension entries)),
                  length (filter recognized_extension entries)), evs)"
    by blast
next
  show "processar_documentos
           (fs\<lparr>fs_listdir := \<lambda>d. Inr (filter recognized_extension entries)\<rparr>) pasta =
         processar_documentos fs pasta"
    using assms by (rule processar_documentos_filtered)
next
  fix a d
  assume "recognized_extension a" "d \<in> set (fst (process_file fs pasta a))"
  then show "map_of (doc_metadata d) ''file_type'' = Some (MStr (drop 1 (lower (suffix a))))"
    by (rule process_file_file_type)
next
  fix a
  assume "recognized_extension a"
  then show "fst (process_file fs pasta a) \<noteq> [] \<longleftrightarrow>
               (if lower (suffix a) = ''.pptx''
                then \<exists>slides. fs_Presentation fs (os_path_join pasta a) = Inr slides
                else \<exists>d ds. fs_load_data fs (os_path_join pasta a) (lower (suffix a)) =
                              Inr (d # ds))"
    by (rule process_file_yields)
qed

theorem processar_documentos_recognized_witness:
  "processar_documentos
     \<lparr>fs_listdir = \<lambda>d. Inr [''Relatorio.PDF'', ''notes.bak''],
      fs_Presentation = \<lambda>p. Inl ''not a presentation'',
      fs_load_data = \<lambda>p e. Inr [\<lparr>doc_text = ''page 1'',
                                  doc_metadata = [(''file_type'', MStr ''application/pdf'')]\<rparr>],
      fs_temp_dir = ''tmp'', fs_extractall = \<lambda>b d. None\<rparr> ''tmp/extracted'' =
   Inr (([\<lparr>doc_text = ''page 1'',
           doc_metadata = [(''file_type'', MStr ''pdf''), (''file_name'', MStr ''Relatorio.PDF''),
                           (''source'', MStr ''document'')]\<rparr>], 1),
        [St_progress 0 1, St_status ''Processando: Relatorio.PDF'', St_progress 1 1,
         St_progress 1 1, St_status ''Processamento concluido!''])"
  using processar_documentos_recognized
    [of "\<lparr>fs_listdir = \<lambda>d. Inr [''Relatorio.PDF'', ''notes.bak''],
      fs_Presentation = \<lambda>p. Inl ''not a presentation'',
      fs_load_data = \<lambda>p e. Inr [\<lparr>doc_text = ''page 1'',
                                  doc_metadata = [(''file_type'', MStr ''application/pdf'')]\<rparr>],
      fs_temp_dir = ''tmp'', fs_extractall = \<lambda>b d. None\<rparr>"
     "''tmp/extracted''" "[''Relatorio.PDF'', ''notes.bak'']"]
  by (simp add: processar_documentos_def arquivos_eq recognized_samples lower_suffix_samples
      process_file_def update_metadata_def)

text \<open>
  A recognized file can be processed without an error and yield no document: the loader
  may return the empty list.
\<close>

theorem recognized_file_without_document:
  "\<not> (\<forall>fs pasta a docs n evs.
        recognized_extension a \<and> fs_listdir fs pasta = Inr [a] \<and>
        processar_documentos fs pasta = Inr ((docs, n), evs) \<and>
        (\<forall>m. St_warning m \<notin> set evs \<and> St_error m \<notin> set evs) \<longrightarrow> docs \<noteq> [])"
proof
  assume a: "\<forall>fs pasta a docs n evs.
        recognized_extension a \<and> fs_listdir fs pasta = Inr [a] \<and>
        processar_documentos fs pasta = Inr ((docs, n), evs) \<and>
        (\<forall>m. St_warning m \<notin> set evs \<and> St_error m \<notin> set evs) \<longrightarrow> docs \<noteq> []"
  have "([] :: document list) \<noteq> []"
    by (rule a[rule_format,
        of "''a.pdf''"
           "\<lparr>fs_listdir = \<lambda>d. Inr [''a.pdf''], fs_Presentation = \<lambda>p. Inl ''not a presentation'',
             fs_load_data = \<lambda>p e. Inr [], fs_temp_dir = ''tmp'', fs_extractall = \<lambda>b d. None\<rparr>"
           "''tmp/extracted''" _ 1
           "[St_progress 0 1, St_status ''Processando: a.pdf'', St_progress 1 1,
             St_progress 1 1, St_status ''Processamento concluido!'']"])
      (auto simp: processar_documentos_def arquivos_eq recognized_samples lower_suffix_samples
        process_file_def)
  then show False by simp
qed

lemma concat_map_skip:
  "f X = [] \<Longrightarrow> concat (map f (filter (\<lambda>a. a \<noteq> X) as)) = concat (map f as)"
  by (induction as) auto

text \<open>
  Claim C7, as the code has it. When the extraction of a recognized file \<open>X\<close> of the
  listing raises, the dispatcher still returns: the documents are those of the other
  recognized files, in the order of the listing, \<open>X\<close> contributing none; the count is
  the number of recognized files, \<open>X\<close> among them; and the failure is reported. For a
  file that is not a presentation the dispatcher catches the exception and shows the
  warning \<open>Erro ao processar X: e\<close>. For a presentation the exception never reaches the
  dispatcher: \<open>processar_pptx\<close> catches it, shows the error
  \<open>Erro ao processar PPTX X: e\<close> (with the base name of the path) and returns no
  document.
\<close>

theorem processar_documentos_skips_failed_file:
  assumes "fs_listdir fs pasta = Inr entries"
    and "X \<in> set entries"
    and "recognized_extension X"
    and "if lower (suffix X) = ''.pptx''
         then fs_Presentation fs (os_path_join pasta X) = Inl e
         else fs_load_data fs (os_path_join pasta X) (lower (suffix X)) = Inl e"
  shows "\<exists>evs. processar_documentos fs pasta =
           Inr ((concat (map (\<lambda>a. fst (process_file fs pasta a))
                          (filter (\<lambda>a. a \<noteq> X) (filter recognized_extension entries))),
                 length (filter recognized_extension entries)), evs) \<and>
           X \<in> set (filter recognized_extension entries) \<and>
           (if lower (suffix X) = ''.pptx''
            then St_error (''Erro ao processar PPTX '' @ basename (os_path_join pasta X) @
                           '': '' @ e) \<in> set evs
            else St_warning (''Erro ao processar '' @ X @ '': '' @ e) \<in> set evs)"
proof -
  let ?as = "filter recognized_extension entries"
  from assms(2,3) have m: "X \<in> set ?as" by simp
  from process_file_raises[OF assms(3,4)]
  have r: "process_file fs pasta X =
     ([], [if lower (suffix X) = ''.pptx''
           then St_error (''Erro ao processar PPTX '' @ basename (os_path_join pasta X) @ '': '' @ e)
           else St_warning (''Erro ao processar '' @ X @ '': '' @ e)])" .
  then have "fst (process_file fs pasta X) = []" by simp
  then have c: "concat (map (\<lambda>a. fst (process_file fs pasta a)) (filter (\<lambda>a. a \<noteq> X) ?as)) =
      concat (map (\<lambda>a. fst (process_file fs pasta a)) ?as)"
    by (rule concat_map_skip)
  from processar_documentos_eq[OF assms(1)] obtain evs where
    p: "processar_documentos fs pasta =
           Inr ((concat (map (\<lambda>a. fst (process_file fs pasta a)) ?as), length ?as), evs)"
    and e: "\<forall>a \<in> set ?as. set (snd (process_file fs pasta a)) \<subseteq> set evs"
    by blast
  from e m have "set (snd (process_file fs pasta X)) \<subseteq> set evs" by blast
  with r have "(if lower (suffix X) = ''.pptx''
            then St_error (''Erro ao processar PPTX '' @ basename (os_path_join pasta X) @
                           '': '' @ e) \<in> set evs
            else St_warning (''Erro ao processar '' @ X @ '': '' @ e) \<in> set evs)"
    by (simp split: if_splits)
  with p c m show ?thesis by simp
qed

theorem processar_documentos_skips_failed_file_witness:
  "processar_documentos
     \<lparr>fs_listdir = \<lambda>d. Inr [''a.pdf'', ''b.txt''],
      fs_Presentation = \<lambda>p. Inl ''not a presentation'',
      fs_load_data = \<lambda>p e. if e = ''.pdf'' then Inl ''damaged file''
                            else Inr [\<lparr>doc_text = ''hello'', doc_metadata = []\<rparr>],
      fs_temp_dir = ''tmp'', fs_extractall = \<lambda>b d. None\<rparr> ''tmp/extracted'' =
   Inr (([\<lparr>doc_text = ''hello'',
           doc_metadata = [(''file_name'', MStr ''b.txt''), (''file_type'', MStr ''txt''),
                           (''source'', MStr ''document'')]\<rparr>], 2),
        [St_progress 0 1,
         St_status ''Processando: a.pdf'', St_progress 1 2,
         St_warning ''Erro ao processar a.pdf: damaged file'',
         St_status ''Processando: b.txt'', St_progress 2 2,
         St_progress 1 1, St_status ''Processamento concluido!''])"
  using processar_documentos_skips_failed_file
    [of "\<lparr>fs_listdir = \<lambda>d. Inr [''a.pdf'', ''b.txt''],
      fs_Presentation = \<lambda>p. Inl ''not a presentation'',
      fs_load_data = \<lambda>p e. if e = ''.pdf'' then Inl ''damaged file''
                            else Inr [\<lparr>doc_text = ''hello'', doc_metadata = []\<rparr>],
      fs_temp_dir = ''tmp'', fs_extractall = \<lambda>b d. None\<rparr>"
     "''tmp/extracted''" "[''a.pdf'', ''b.txt'']" "''a.pdf''" "''damaged file''"]
  by (simp add: processar_documentos_def arquivos_eq recognized_samples lower_suffix_samples
      process_file_def update_metadata_def)

text \<open>
  The failure of a presentation is not shown as a warning: with one presentation that
  does not parse, the messages hold an error and no warning.
\<close>

theorem pptx_failure_is_not_a_warning:
  "\<not> (\<forall>fs pasta entries X e docs n evs.
        fs_listdir fs pasta = Inr entries \<and> X \<in> set entries \<and> recognized_extension X \<and>
        (if lower (suffix X) = ''.pptx''
         then fs_Presentation fs (os_path_join pasta X) = Inl e
         else fs_load_data fs (os_path_join pasta X) (lower (suffix X)) = Inl e) \<and>
        processar_documentos fs pasta = Inr ((docs, n), evs) \<longrightarrow>
        (\<exists>m. St_warning m \<in> set evs))"
proof
  assume a: "\<forall>fs pasta entries X e docs n evs.
        fs_listdir fs pasta = Inr entries \<and> X \<in> set entries \<and> recognized_extension X \<and>
        (if lower (suffix X) = ''.pptx''
         then fs_Presentation fs (os_path_join pasta X) = Inl e
         else fs_load_data fs (os_path_join pasta X) (lower (suffix X)) = Inl e) \<and>
        processar_documentos fs pasta = Inr ((docs, n), evs) \<longrightarrow>
        (\<exists>m. St_warning m \<in> set evs)"
  have "\<exists>m. St_warning m \<in> set
          [St_progress 0 1, St_status ''Processando: x.pptx'', St_progress 1 1,
           St_error ''Erro ao processar PPTX x.pptx: not a presentation'',
           St_progress 1 1, St_status ''Processamento concluido!'']"
    by (rule a[rule_format,
        of "\<lparr>fs_listdir = \<lambda>d. Inr [''x.pptx''], fs_Presentation = \<lambda>p. Inl ''not a presentation'',
             fs_load_data = \<lambda>p e. Inr [], fs_temp_dir = ''tmp'', fs_extractall = \<lambda>b d. None\<rparr>"
           "''tmp/extracted''" "[''x.pptx'']" "''x.pptx''" "''not a presentation''" "[]" 1])
      (simp add: processar_documentos_def arquivos_eq recognized_samples lower_suffix_samples
        process_file_def processar_pptx_def basename_def os_path_join_def startswith_def)
  then show False by simp
qed

section \<open>The upload and chat sections\<close>

lemma modal_api_key_configured:
  "api_key_configured s = Some True \<Longrightarrow> modal_api_key be inp s p = ((Returned True, s, p), [])"
  by (simp add: modal_api_key_def)

lemma main_configured:
  assumes "api_key_configured s = Some True"
  shows "main be rg fs inp s p =
     (let s2 = (if documentos_processados s = None
                then s\<lparr>documentos_processados := Some False, query_engine := None,
                       num_documentos := 0\<rparr>
                else s)
      in case (if documentos_processados s2 \<noteq> Some True
               then upload_section rg fs inp s2
               else chat_section rg inp s2) of
           ((out, s3), evs2) \<Rightarrow>
             ((out, s3, p),
              [St_markdown ''RAG Interativo-Explicacoes BackOffice e Gestao''] @ evs2))"
  using assms by (simp add: main_def modal_api_key_configured)

lemma main_chat:
  assumes "api_key_configured s = Some True" and "documentos_processados s = Some True"
  shows "main be rg fs inp s p =
     ((fst (fst (chat_section rg inp s)), snd (fst (chat_section rg inp s)), p),
      [St_markdown ''RAG Interativo-Explicacoes BackOffice e Gestao''] @
      snd (chat_section rg inp s))"
  using assms by (simp add: main_configured split: prod.splits)

lemma main_upload:
  assumes "api_key_configured s = Some True" and "documentos_processados s \<noteq> Some True"
  shows "main be rg fs inp s p =
     ((fst (fst (upload_section rg fs inp
               (s\<lparr>documentos_processados := Some False,
                  query_engine := (if documentos_processados s = None then None else query_engine s),
                  num_documentos := (if documentos_processados s = None then 0 else num_documentos s)\<rparr>))),
       snd (fst (upload_section rg fs inp
               (s\<lparr>documentos_processados := Some False,
                  query_engine := (if documentos_processados s = None then None else query_engine s),
                  num_documentos := (if documentos_processados s = None then 0 else num_documentos s)\<rparr>))),
       p),
      [St_markdown ''RAG Interativo-Explicacoes BackOffice e Gestao''] @
      snd (upload_section rg fs inp
               (s\<lparr>documentos_processados := Some False,
                  query_engine := (if documentos_processados s = None then None else query_engine s),
                  num_documentos := (if documentos_processados s = None then 0 else num_documentos s)\<rparr>)))"
proof (cases "documentos_processados s")
  case None
  with assms show ?thesis by (simp add: main_configured split: prod.splits)
next
  case (Some b)
  with assms have "b = False" by simp
  with Some have e: "s\<lparr>documentos_processados := Some False\<rparr> = s" by simp
  from assms Some show ?thesis by (simp add: main_configured e split: prod.splits)
qed

lemma processar_documentos_none_recognized:
  assumes "fs_listdir fs pasta = Inr entries" and "\<forall>a \<in> set entries. \<not> recognized_extension a"
  shows "processar_documentos fs pasta = Inr (([], 0), [])"
proof -
  from assms(2) have "filter recognized_extension entries = []" by (simp add: filter_empty_conv)
  with assms(1) show ?thesis by (simp add: processar_documentos_def arquivos_eq)
qed

text \<open>
  Claim C6. Let the session be configured and no index be built, an archive be uploaded
  and extracted, and no entry of the extracted directory have a recognized extension.
  Then the dispatcher returns the empty list of documents and the count 0, showing
  nothing; the run of \<open>main\<close> shows that no valid document was found and returns with the
  flag \<open>documentos_processados\<close> at \<open>False\<close>, the process state unchanged, and the session
  unchanged but for the initialisation of lines 284 to 287 (a session that already
  holds the flag is left as it was).
\<close>

theorem upload_without_recognized_file:
  assumes "api_key_configured s = Some True"
    and "documentos_processados s \<noteq> Some True"
    and "uploaded_file inp = Some blob"
    and "fs_extractall fs blob (os_path_join (fs_temp_dir fs) ''extracted'') = None"
    and "fs_listdir fs (os_path_join (fs_temp_dir fs) ''extracted'') = Inr entries"
    and "\<forall>a \<in> set entries. \<not> recognized_extension a"
  shows "processar_documentos fs (os_path_join (fs_temp_dir fs) ''extracted'') = Inr (([], 0), []) \<and>
         main be rg fs inp s p =
           ((Returned (),
             s\<lparr>documentos_processados := Some False,
               query_engine := (if documentos_processados s = None then None else query_engine s),
               num_documentos := (if documentos_processados s = None then 0 else num_documentos s)\<rparr>,
             p),
            [St_markdown ''RAG Interativo-Explicacoes BackOffice e Gestao'',
             St_markdown ''Upload de Documentos'',
             St_markdown ''Nenhum documento valido encontrado no ZIP'']) \<and>
         (documentos_processados s = Some False \<longrightarrow>
            fst (snd (fst (main be rg fs inp s p))) = s)"
proof -
  from processar_documentos_none_recognized[OF assms(5,6)]
  have d: "processar_documentos fs (os_path_join (fs_temp_dir fs) ''extracted'') = Inr (([], 0), [])" .
  have m: "main be rg fs inp s p =
           ((Returned (),
             s\<lparr>documentos_processados := Some False,
               query_engine := (if documentos_processados s = None then None else query_engine s),
               num_documentos := (if documentos_processados s = None then 0 else num_documentos s)\<rparr>,
             p),
            [St_markdown ''RAG Interativo-Explicacoes BackOffice e Gestao'',
             St_markdown ''Upload de Documentos'',
             St_markdown ''Nenhum documento valido encontrado no ZIP''])"
    using assms(3,4) d
    by (simp add: main_upload[OF assms(1,2)] upload_section_def Let_def)
  from d m show ?thesis by simp
qed

lemma lower_suffix_hidden: "lower (suffix ''.md'') = []"
  by code_simp

lemma not_recognized_hidden: "\<not> recognized_extension ''.md''"
  by (simp add: recognized_extension_iff lower_suffix_hidden formatos_suportados_def)

theorem upload_without_recognized_file_witness:
  "main \<lparr>HuggingFaceEmbedding = None, OpenAI = \<lambda>m t. Inr ()\<rparr>
     \<lparr>from_documents = \<lambda>d a. Inr (), as_query_engine = \<lambda>i a. Inr (),
      query = \<lambda>q t. Inr ''answer''\<rparr>
     \<lparr>fs_listdir = \<lambda>d. Inr [''notes.bak'', ''.md''],
      fs_Presentation = \<lambda>p. Inl ''not a presentation'',
      fs_load_data = \<lambda>p e. Inr [], fs_temp_dir = ''tmp'', fs_extractall = \<lambda>b d. None\<rparr>
     \<lparr>api_key_input = [], config_button = False, uploaded_file = Some ''PK'',
      reload_button = False, pergunta_input = [], enviar_pergunta = False\<rparr>
     \<lparr>api_key_configured = Some True, documentos_processados = Some False,
      query_engine = None, num_documentos = 0, chat_history = None\<rparr>
     \<lparr>environ = [''OPENAI_API_KEY'' \<mapsto> ''sk-validlookingkey''],
      Settings_embed_model = (None :: unit option), Settings_llm = Some ()\<rparr> =
   ((Returned (),
     \<lparr>api_key_configured = Some True, documentos_processados = Some False,
      query_engine = None, num_documentos = 0, chat_history = None\<rparr>,
     \<lparr>environ = [''OPENAI_API_KEY'' \<mapsto> ''sk-validlookingkey''],
      Settings_embed_model = None, Settings_llm = Some ()\<rparr>),
    [St_markdown ''RAG Interativo-Explicacoes BackOffice e Gestao'',
     St_markdown ''Upload de Documentos'',
     St_markdown ''Nenhum documento valido encontrado no ZIP''])"
  using upload_without_recognized_file
    [of "\<lparr>api_key_configured = Some True, documentos_processados = Some False,
          query_engine = (None :: unit option), num_documentos = 0, chat_history = None\<rparr>"
        "\<lparr>api_key_input = [], config_button = False, uploaded_file = Some ''PK'',
          reload_button = False, pergunta_input = [], enviar_pergunta = False\<rparr>"
        "''PK''"
        "\<lparr>fs_listdir = \<lambda>d. Inr [''notes.bak'', ''.md''],
          fs_Presentation = \<lambda>p. Inl ''not a presentation'',
          fs_load_data = \<lambda>p e. Inr [], fs_temp_dir = ''tmp'', fs_extractall = \<lambda>b d. None\<rparr>"
        "[''notes.bak'', ''.md'']"
        "\<lparr>HuggingFaceEmbedding = None, OpenAI = \<lambda>m t. Inr ()\<rparr>"
        "\<lparr>from_documents = \<lambda>d a. Inr (), as_query_engine = \<lambda>i a. Inr (),
          query = \<lambda>q t. Inr ''answer''\<rparr>"
        "\<lparr>environ = [''OPENAI_API_KEY'' \<mapsto> ''sk-validlookingkey''],
          Settings_embed_model = (None :: unit option), Settings_llm = Some ()\<rparr>"]
  by (simp add: recognized_samples not_recognized_hidden)

lemma exibir_historico_no_error: "St_error m \<notin> set (exibir_historico h)"
  by (auto simp: exibir_historico_def)

lemma exibir_historico_shows:
  assumes "c \<in> set h"
  shows "\<exists>b. St_expander (take 50 (pergunta c) @ ''...'') b
            [''**Pergunta:** '' @ pergunta c, ''**Resposta:** '' @ resposta c]
          \<in> set (exibir_historico h)"
proof -
  from assms have "c \<in> set (rev h)" by simp
  then obtain k where k: "k < length (rev h)" "rev h ! k = c" by (metis in_set_conv_nth)
  then have "enumerate 0 (rev h) ! k = (k, c)" by (simp add: nth_enumerate_eq)
  with k(1) have "(k, c) \<in> set (enumerate 0 (rev h))"
    by (metis length_enumerate nth_mem)
  then have "St_expander (take 50 (pergunta c) @ ''...'') (k = 0)
            [''**Pergunta:** '' @ pergunta c, ''**Resposta:** '' @ resposta c]
          \<in> set (exibir_historico h)"
    using assms by (force simp: exibir_historico_def)
  then show ?thesis by blast
qed

text \<open>
  Claim C8. In the chat section (session configured, index built, reload not pressed),
  when a question is submitted: if it is empty or blank after trimming, the transcript
  is the one before and no error is shown; otherwise the engine is queried with the
  question as typed, and if the query raises, the error is shown and the transcript is
  the one before, while if it answers, the transcript is the one before followed by the
  one pair of question and answer. Nothing else of the session changes, nor anything
  of the process state.
\<close>

theorem question_submitted:
  assumes "api_key_configured s = Some True"
    and "documentos_processados s = Some True"
    and "\<not> reload_button inp"
    and "enviar_pergunta inp"
    and "main be rg fs inp s p = ((out, s', p'), evs)"
  shows "(strip (pergunta_input inp) = [] \<longrightarrow>
            transcript s' = transcript s \<and> (\<forall>m. St_error m \<notin> set evs)) \<and>
         (strip (pergunta_input inp) \<noteq> [] \<longrightarrow>
            (case (case query_engine s of
                     None \<Rightarrow> Inl ''NoneType object has no attribute query''
                   | Some qe \<Rightarrow> query rg qe (pergunta_input inp)) of
               Inl e \<Rightarrow> transcript s' = transcript s \<and>
                        St_error (''Erro ao processar pergunta: '' @ e) \<in> set evs
             | Inr answer \<Rightarrow>
                 transcript s' =
                   transcript s @ [\<lparr>pergunta = pergunta_input inp, resposta = answer\<rparr>])) \<and>
         s' = s\<lparr>chat_history := Some (transcript s')\<rparr> \<and> p' = p \<and> out = Returned ()"
proof -
  from assms(5) have r: "fst (fst (chat_section rg inp s)) = out"
      "snd (fst (chat_section rg inp s)) = s'" "p' = p"
      "evs = [St_markdown ''RAG Interativo-Explicacoes BackOffice e Gestao''] @
         snd (chat_section rg inp s)"
    by (simp_all add: main_chat[OF assms(1,2)])
  show ?thesis
  proof (cases "strip (pergunta_input inp) = []")
    case True
    with assms(3,4) r show ?thesis
      by (auto simp: chat_section_def Let_def transcript_def exibir_historico_no_error
          split: option.splits)
  next
    case False
    with assms(3,4) r show ?thesis
      by (auto simp: chat_section_def Let_def transcript_def exibir_historico_no_error
          split: option.splits sum.splits)
  qed
qed




lemma upload_section_frame:
  "\<exists>d q n. snd (fst (upload_section rg fs inp s)) =
     s\<lparr>documentos_processados := d, query_engine := q, num_documentos := n\<rparr>"
proof -
  have a: "\<exists>d q n. s = s\<lparr>documentos_processados := d, query_engine := q, num_documentos := n\<rparr>"
    by (rule exI[of _ "documentos_processados s"], rule exI[of _ "query_engine s"],
        rule exI[of _ "num_documentos s"]) simp
  show ?thesis
    using a
    by (auto simp: upload_section_def Let_def split: option.splits sum.splits prod.splits)
qed

lemma chat_section_reload:
  "reload_button inp \<Longrightarrow>
     chat_section rg inp s =
       ((Rerun, s\<lparr>documentos_processados := Some False, query_engine := None,
                  num_documentos := 0\<rparr>),
        [St_markdown (str_nat (num_documentos s) @
           '' documentos carregados - Sistema pronto para perguntas!'')])"
  by (simp add: chat_section_def)

lemma chat_section_transcript:
  assumes "\<not> reload_button inp"
  shows "(\<exists>new. transcript (snd (fst (chat_section rg inp s))) = transcript s @ new) \<and>
         (\<exists>pre. snd (chat_section rg inp s) =
            pre @ exibir_historico (transcript (snd (fst (chat_section rg inp s)))))"
  using assms
  by (auto simp: chat_section_def Let_def transcript_def split: option.splits sum.splits)

lemma modal_api_key_chat_history:
  "chat_history (fst (snd (fst (modal_api_key be inp s p)))) = chat_history s"
  by (auto simp: modal_api_key_def Let_def split: if_splits sum.splits prod.splits bool.splits)

lemma modal_api_key_not_configured:
  "api_key_configured s \<noteq> Some True \<Longrightarrow>
     fst (fst (modal_api_key be inp s p)) \<noteq> Returned True"
  by (auto simp: modal_api_key_def Let_def split: if_splits sum.splits prod.splits bool.splits)

lemma main_not_configured:
  assumes "api_key_configured s \<noteq> Some True"
  shows "fst (snd (fst (main be rg fs inp s p))) = fst (snd (fst (modal_api_key be inp s p)))"
proof -
  obtain out s1 p1 evs where m: "modal_api_key be inp s p = ((out, s1, p1), evs)"
    by (metis surj_pair)
  with modal_api_key_not_configured[OF assms, of be inp p] have "out \<noteq> Returned True" by simp
  with m show ?thesis
    by (cases out) (auto simp: main_def split: bool.splits)
qed

lemma main_transcript:
  "\<exists>new. transcript (fst (snd (fst (main be rg fs inp s p)))) = transcript s @ new"
proof (cases "api_key_configured s = Some True")
  case False
  then have "chat_history (fst (snd (fst (main be rg fs inp s p)))) = chat_history s"
    by (simp add: main_not_configured modal_api_key_chat_history)
  then show ?thesis by (simp add: transcript_def)
next
  case True
  show ?thesis
  proof (cases "documentos_processados s = Some True")
    case p: True
    show ?thesis
    proof (cases "reload_button inp")
      case True
      then show ?thesis
        by (simp add: main_chat[OF \<open>api_key_configured s = Some True\<close> p] chat_section_reload
            transcript_def)
    next
      case False
      from chat_section_transcript[OF False, of rg s] show ?thesis
        by (simp add: main_chat[OF \<open>api_key_configured s = Some True\<close> p])
    qed
  next
    case False
    let ?s = "s\<lparr>documentos_processados := Some False,
        query_engine := (if documentos_processados s = None then None else query_engine s),
        num_documentos := (if documentos_processados s = None then 0 else num_documentos s)\<rparr>"
    from upload_section_frame[of rg fs inp ?s] obtain d q n where
      "snd (fst (upload_section rg fs inp ?s)) =
         ?s\<lparr>documentos_processados := d, query_engine := q, num_documentos := n\<rparr>"
      by blast
    then have "chat_history (fst (snd (fst (main be rg fs inp s p)))) = chat_history s"
      by (simp add: main_upload[OF True False])
    then show ?thesis by (simp add: transcript_def)
  qed
qed

lemma main_stays_configured:
  assumes "api_key_configured s = Some True"
  shows "api_key_configured (fst (snd (fst (main be rg fs inp s p)))) = Some True"
proof (cases "documentos_processados s = Some True")
  case True
  show ?thesis
    using assms
    by (auto simp: main_chat[OF assms True] chat_section_def Let_def
        split: option.splits sum.splits)
next
  case False
  let ?s = "s\<lparr>documentos_processados := Some False,
      query_engine := (if documentos_processados s = None then None else query_engine s),
      num_documentos := (if documentos_processados s = None then 0 else num_documentos s)\<rparr>"
  from upload_section_frame[of rg fs inp ?s] obtain d q n where
    "snd (fst (upload_section rg fs inp ?s)) =
       ?s\<lparr>documentos_processados := d, query_engine := q, num_documentos := n\<rparr>"
    by blast
  then show ?thesis using assms by (simp add: main_upload[OF assms False])
qed

lemma run_all_transcript:
  "\<exists>new. transcript (fst (run_all runs s p)) = transcript s @ new"
proof (induction runs arbitrary: s p)
  case Nil
  show ?case by simp
next
  case (Cons r runs)
  obtain be rg fs inp where r: "r = (be, rg, fs, inp)" by (metis surj_pair)
  obtain out s' p' evs where m: "main be rg fs inp s p = ((out, s', p'), evs)"
    by (metis surj_pair)
  from main_transcript[of be rg fs inp s p] m obtain new1 where
    a: "transcript s' = transcript s @ new1" by auto
  from Cons.IH[of s' p'] obtain new2 where
    b: "transcript (fst (run_all runs s' p')) = transcript s' @ new2" by blast
  from a b r m show ?case by simp
qed

lemma run_all_stays_configured:
  "api_key_configured s = Some True \<Longrightarrow>
     api_key_configured (fst (run_all runs s p)) = Some True"
proof (induction runs arbitrary: s p)
  case Nil
  then show ?case by simp
next
  case (Cons r runs)
  obtain be rg fs inp where r: "r = (be, rg, fs, inp)" by (metis surj_pair)
  obtain out s' p' evs where m: "main be rg fs inp s p = ((out, s', p'), evs)"
    by (metis surj_pair)
  from main_stays_configured[OF Cons.prems, of be rg fs inp p] m
  have "api_key_configured s' = Some True" by simp
  from Cons.IH[OF this, of p'] r m show ?case by simp
qed

text \<open>
  Claim C10. A run with the reload button pressed, in the chat section, changes the
  flag \<open>documentos_processados\<close>, the query engine and the document count and nothing
  else: the transcript stays. No run of the script ever shortens the transcript
  (\<open>main_transcript\<close>), so after any runs that follow the reload (idle runs, uploads
  that fail, the upload that builds the new index, questions) the transcript still
  starts with the one from before the reload. In a run of the chat section after that,
  with the new index built, what is shown ends with the whole transcript, and every
  entry from before the reload has its expander there.
\<close>

theorem transcript_survives_reload_runs:
  assumes "api_key_configured s0 = Some True"
    and "documentos_processados s0 = Some True"
    and "reload_button inp1"
    and "main be1 rg1 fs1 inp1 s0 p0 = ((out1, s1, p1), evs1)"
    and "run_all runs s1 p1 = (s2, p2)"
    and "documentos_processados s2 = Some True"
    and "\<not> reload_button inp3"
    and "main be3 rg3 fs3 inp3 s2 p2 = ((out3, s3, p3), evs3)"
  shows "s1 = s0\<lparr>documentos_processados := Some False, query_engine := None,
                 num_documentos := 0\<rparr> \<and>
         (\<exists>mid. transcript s2 = transcript s0 @ mid) \<and>
         (\<exists>new. transcript s3 = transcript s0 @ new) \<and>
         (\<exists>pre. evs3 = pre @ exibir_historico (transcript s3)) \<and>
         (\<forall>c \<in> set (transcript s0).
            \<exists>b. St_expander (take 50 (pergunta c) @ ''...'') b
                   [''**Pergunta:** '' @ pergunta c, ''**Resposta:** '' @ resposta c]
                 \<in> set evs3)"
proof -
  from assms(4) have s1: "s1 = s0\<lparr>documentos_processados := Some False, query_engine := None,
                 num_documentos := 0\<rparr>"
    by (simp add: main_chat[OF assms(1,2)] chat_section_reload[OF assms(3)])
  then have c1: "api_key_configured s1 = Some True" and t1: "transcript s1 = transcript s0"
    using assms(1) by (simp_all add: transcript_def)
  from run_all_stays_configured[OF c1, of runs p1] assms(5)
  have c2: "api_key_configured s2 = Some True" by simp
  from run_all_transcript[of runs s1 p1] assms(5) t1 obtain mid where
    t2: "transcript s2 = transcript s0 @ mid" by auto
  from assms(8) have s3: "s3 = snd (fst (chat_section rg3 inp3 s2))"
    and e3: "evs3 = [St_markdown ''RAG Interativo-Explicacoes BackOffice e Gestao''] @
        snd (chat_section rg3 inp3 s2)"
    by (simp_all add: main_chat[OF c2 assms(6)])
  from chat_section_transcript[OF assms(7), of rg3 s2] obtain new pre where
    t: "transcript s3 = transcript s2 @ new"
    and r: "snd (chat_section rg3 inp3 s2) = pre @ exibir_historico (transcript s3)"
    unfolding s3 by blast
  from t t2 have t0: "transcript s3 = transcript s0 @ (mid @ new)" by simp
  from e3 r have e: "evs3 = ([St_markdown ''RAG Interativo-Explicacoes BackOffice e Gestao''] @ pre) @
      exibir_historico (transcript s3)" by simp
  have "\<exists>b. St_expander (take 50 (pergunta c) @ ''...'') b
                   [''**Pergunta:** '' @ pergunta c, ''**Resposta:** '' @ resposta c]
                 \<in> set evs3" if "c \<in> set (transcript s0)" for c
  proof -
    from that t0 have "c \<in> set (transcript s3)" by simp
    from exibir_historico_shows[OF this] e show ?thesis by auto
  qed
  with s1 t2 t0 e show ?thesis by blast
qed

lemmas run_defs =
  main_def modal_api_key_def chat_section_def upload_section_def exibir_historico_def
  transcript_def strip_def is_space_def enumerate_eq_zip str_nat.simps digit_char_def Let_def

theorem question_submitted_witness:
  "main \<lparr>HuggingFaceEmbedding = None, OpenAI = \<lambda>m t. Inr ()\<rparr>
     \<lparr>from_documents = \<lambda>d a. Inr (), as_query_engine = \<lambda>i a. Inr (),
      query = \<lambda>q t. Inr ''Friday''\<rparr>
     \<lparr>fs_listdir = \<lambda>d. Inr [], fs_Presentation = \<lambda>p. Inl ''not a presentation'',
      fs_load_data = \<lambda>p e. Inr [], fs_temp_dir = ''tmp'', fs_extractall = \<lambda>b d. None\<rparr>
     \<lparr>api_key_input = [], config_button = False, uploaded_file = None,
      reload_button = False, pergunta_input = ''When is it due?'', enviar_pergunta = True\<rparr>
     \<lparr>api_key_configured = Some True, documentos_processados = Some True,
      query_engine = Some (), num_documentos = 2,
      chat_history = Some [\<lparr>pergunta = ''Who pays?'', resposta = ''Ana''\<rparr>]\<rparr>
     \<lparr>environ = Map.empty, Settings_embed_model = (None :: unit option),
      Settings_llm = Some ()\<rparr> =
   ((Returned (),
     \<lparr>api_key_configured = Some True, documentos_processados = Some True,
      query_engine = Some (), num_documentos = 2,
      chat_history = Some [\<lparr>pergunta = ''Who pays?'', resposta = ''Ana''\<rparr>,
                           \<lparr>pergunta = ''When is it due?'', resposta = ''Friday''\<rparr>]\<rparr>,
     \<lparr>environ = Map.empty, Settings_embed_model = None, Settings_llm = Some ()\<rparr>),
    [St_markdown ''RAG Interativo-Explicacoes BackOffice e Gestao'',
     St_markdown ''2 documentos carregados - Sistema pronto para perguntas!'',
     St_markdown ''---'', St_markdown ''Faca sua pergunta'',
     St_markdown ''---'', St_markdown ''### Historico de Conversas'',
     St_expander ''When is it due?...'' True
       [''**Pergunta:** When is it due?'', ''**Resposta:** Friday''],
     St_expander ''Who pays?...'' False
       [''**Pergunta:** Who pays?'', ''**Resposta:** Ana'']]) \<and>
   transcript (fst (snd (fst (main \<lparr>HuggingFaceEmbedding = None, OpenAI = \<lambda>m t. Inr ()\<rparr>
     \<lparr>from_documents = \<lambda>d a. Inr (), as_query_engine = \<lambda>i a. Inr (),
      query = \<lambda>q t. Inr ''Friday''\<rparr>
     \<lparr>fs_listdir = \<lambda>d. Inr [], fs_Presentation = \<lambda>p. Inl ''not a presentation'',
      fs_load_data = \<lambda>p e. Inr [], fs_temp_dir = ''tmp'', fs_extractall = \<lambda>b d. None\<rparr>
     \<lparr>api_key_input = [], config_button = False, uploaded_file = None,
      reload_button = False, pergunta_input = ''  '', enviar_pergunta = True\<rparr>
     \<lparr>api_key_configured = Some True, documentos_processados = Some True,
      query_engine = Some (), num_documentos = 2,
      chat_history = Some [\<lparr>pergunta = ''Who pays?'', resposta = ''Ana''\<rparr>]\<rparr>
     \<lparr>environ = Map.empty, Settings_embed_model = (None :: unit option),
      Settings_llm = Some ()\<rparr>)))) =
   [\<lparr>pergunta = ''Who pays?'', resposta = ''Ana''\<rparr>]"
proof -
  let ?be = "\<lparr>HuggingFaceEmbedding = None, OpenAI = \<lambda>m t. Inr ()\<rparr> :: (unit, unit) backend"
  let ?rg = "\<lparr>from_documents = \<lambda>d a. Inr (), as_query_engine = \<lambda>i a. Inr (),
      query = \<lambda>q t. Inr ''Friday''\<rparr> :: (unit, unit) rag"
  let ?fs = "\<lparr>fs_listdir = \<lambda>d. Inr [], fs_Presentation = \<lambda>p. Inl ''not a presentation'',
      fs_load_data = \<lambda>p e. Inr [], fs_temp_dir = ''tmp'', fs_extractall = \<lambda>b d. None\<rparr>"
  let ?s = "\<lparr>api_key_configured = Some True, documentos_processados = Some True,
      query_engine = Some (), num_documentos = 2,
      chat_history = Some [\<lparr>pergunta = ''Who pays?'', resposta = ''Ana''\<rparr>]\<rparr>"
  let ?p = "\<lparr>environ = Map.empty, Settings_embed_model = (None :: unit option),
      Settings_llm = Some ()\<rparr>"
  let ?blank = "\<lparr>api_key_input = [], config_button = False, uploaded_file = None,
      reload_button = False, pergunta_input = ''  '', enviar_pergunta = True\<rparr>"
  have a: "main ?be ?rg ?fs
     \<lparr>api_key_input = [], config_button = False, uploaded_file = None,
      reload_button = False, pergunta_input = ''When is it due?'', enviar_pergunta = True\<rparr>
     ?s ?p =
   ((Returned (),
     \<lparr>api_key_configured = Some True, documentos_processados = Some True,
      query_engine = Some (), num_documentos = 2,
      chat_history = Some [\<lparr>pergunta = ''Who pays?'', resposta = ''Ana''\<rparr>,
                           \<lparr>pergunta = ''When is it due?'', resposta = ''Friday''\<rparr>]\<rparr>,
     \<lparr>environ = Map.empty, Settings_embed_model = None, Settings_llm = Some ()\<rparr>),
    [St_markdown ''RAG Interativo-Explicacoes BackOffice e Gestao'',
     St_markdown ''2 documentos carregados - Sistema pronto para perguntas!'',
     St_markdown ''---'', St_markdown ''Faca sua pergunta'',
     St_markdown ''---'', St_markdown ''### Historico de Conversas'',
     St_expander ''When is it due?...'' True
       [''**Pergunta:** When is it due?'', ''**Resposta:** Friday''],
     St_expander ''Who pays?...'' False
       [''**Pergunta:** Who pays?'', ''**Resposta:** Ana'']])"
    by (simp add: run_defs)
  have d: "transcript (fst (snd (fst (main ?be ?rg ?fs ?blank ?s ?p)))) =
      [\<lparr>pergunta = ''Who pays?'', resposta = ''Ana''\<rparr>]"
    using question_submitted[of ?s ?blank ?be ?rg ?fs ?p
        "fst (fst (main ?be ?rg ?fs ?blank ?s ?p))"
        "fst (snd (fst (main ?be ?rg ?fs ?blank ?s ?p)))"
        "snd (snd (fst (main ?be ?rg ?fs ?blank ?s ?p)))"
        "snd (main ?be ?rg ?fs ?blank ?s ?p)"]
    by (simp add: strip_def is_space_def transcript_def)
  from a d show ?thesis by simp
qed

theorem transcript_survives_reload_runs_witness:
  "main \<lparr>HuggingFaceEmbedding = None, OpenAI = \<lambda>m t. Inr ()\<rparr>
     \<lparr>from_documents = \<lambda>d a. Inr (), as_query_engine = \<lambda>i a. Inr (),
      query = \<lambda>q t. Inr ''Friday''\<rparr>
     \<lparr>fs_listdir = \<lambda>d. Inr [''b.txt''], fs_Presentation = \<lambda>p. Inl ''not a presentation'',
      fs_load_data = \<lambda>p e. Inr [\<lparr>doc_text = ''hello'', doc_metadata = []\<rparr>],
      fs_temp_dir = ''tmp'', fs_extractall = \<lambda>b d. None\<rparr>
     \<lparr>api_key_input = [], config_button = False, uploaded_file = None,
      reload_button = True, pergunta_input = [], enviar_pergunta = False\<rparr>
     \<lparr>api_key_configured = Some True, documentos_processados = Some True,
      query_engine = Some (), num_documentos = 2,
      chat_history = Some [\<lparr>pergunta = ''Who pays?'', resposta = ''Ana''\<rparr>]\<rparr>
     \<lparr>environ = Map.empty, Settings_embed_model = (None :: unit option),
      Settings_llm = Some ()\<rparr> =
   ((Rerun,
     \<lparr>api_key_configured = Some True, documentos_processados = Some False,
      query_engine = None, num_documentos = 0,
      chat_history = Some [\<lparr>pergunta = ''Who pays?'', resposta = ''Ana''\<rparr>]\<rparr>,
     \<lparr>environ = Map.empty, Settings_embed_model = None, Settings_llm = Some ()\<rparr>),
    [St_markdown ''RAG Interativo-Explicacoes BackOffice e Gestao'',
     St_markdown ''2 documentos carregados - Sistema pronto para perguntas!'']) \<and>
   run_all
     [(\<lparr>HuggingFaceEmbedding = None, OpenAI = \<lambda>m t. Inr ()\<rparr>,
       \<lparr>from_documents = \<lambda>d a. Inr (), as_query_engine = \<lambda>i a. Inr (),
        query = \<lambda>q t. Inr ''Friday''\<rparr>,
       \<lparr>fs_listdir = \<lambda>d. Inr [''b.txt''], fs_Presentation = \<lambda>p. Inl ''not a presentation'',
        fs_load_data = \<lambda>p e. Inr [\<lparr>doc_text = ''hello'', doc_metadata = []\<rparr>],
        fs_temp_dir = ''tmp'', fs_extractall = \<lambda>b d. None\<rparr>,
       \<lparr>api_key_input = [], config_button = False, uploaded_file = None,
        reload_button = False, pergunta_input = [], enviar_pergunta = False\<rparr>),
      (\<lparr>HuggingFaceEmbedding = None, OpenAI = \<lambda>m t. Inr ()\<rparr>,
       \<lparr>from_documents = \<lambda>d a. Inr (), as_query_engine = \<lambda>i a. Inr (),
        query = \<lambda>q t. Inr ''Friday''\<rparr>,
       \<lparr>fs_listdir = \<lambda>d. Inr [''b.txt''], fs_Presentation = \<lambda>p. Inl ''not a presentation'',
        fs_load_data = \<lambda>p e. Inr [\<lparr>doc_text = ''hello'', doc_metadata = []\<rparr>],
        fs_temp_dir = ''tmp'', fs_extractall = \<lambda>b d. None\<rparr>,
       \<lparr>api_key_input = [], config_button = False, uploaded_file = Some ''PK'',
        reload_button = False, pergunta_input = [], enviar_pergunta = False\<rparr>)]
     \<lparr>api_key_configured = Some True, documentos_processados = Some False,
      query_engine = None, num_documentos = 0,
      chat_history = Some [\<lparr>pergunta = ''Who pays?'', resposta = ''Ana''\<rparr>]\<rparr>
     \<lparr>environ = Map.empty, Settings_embed_model = (None :: unit option),
      Settings_llm = Some ()\<rparr> =
   (\<lparr>api_key_configured = Some True, documentos_processados = Some True,
     query_engine = Some (), num_documentos = 1,
     chat_history = Some [\<lparr>pergunta = ''Who pays?'', resposta = ''Ana''\<rparr>]\<rparr>,
    \<lparr>environ = Map.empty, Settings_embed_model = None, Settings_llm = Some ()\<rparr>) \<and>
   main \<lparr>HuggingFaceEmbedding = None, OpenAI = \<lambda>m t. Inr ()\<rparr>
     \<lparr>from_documents = \<lambda>d a. Inr (), as_query_engine = \<lambda>i a. Inr (),
      query = \<lambda>q t. Inr ''Friday''\<rparr>
     \<lparr>fs_listdir = \<lambda>d. Inr [''b.txt''], fs_Presentation = \<lambda>p. Inl ''not a presentation'',
      fs_load_data = \<lambda>p e. Inr [\<lparr>doc_text = ''hello'', doc_metadata = []\<rparr>],
      fs_temp_dir = ''tmp'', fs_extractall = \<lambda>b d. None\<rparr>
     \<lparr>api_key_input = [], config_button = False, uploaded_file = None,
      reload_button = False, pergunta_input = [], enviar_pergunta = False\<rparr>
     \<lparr>api_key_configured = Some True, documentos_processados = Some True,
      query_engine = Some (), num_documentos = 1,
      chat_history = Some [\<lparr>pergunta = ''Who pays?'', resposta = ''Ana''\<rparr>]\<rparr>
     \<lparr>environ = Map.empty, Settings_embed_model = (None :: unit option),
      Settings_llm = Some ()\<rparr> =
   ((Returned (),
     \<lparr>api_key_configured = Some True, documentos_processados = Some True,
      query_engine = Some (), num_documentos = 1,
      chat_history = Some [\<lparr>pergunta = ''Who pays?'', resposta = ''Ana''\<rparr>]\<rparr>,
     \<lparr>environ = Map.empty, Settings_embed_model = None, Settings_llm = Some ()\<rparr>),
    [St_markdown ''RAG Interativo-Explicacoes BackOffice e Gestao'',
     St_markdown ''1 documentos carregados - Sistema pronto para perguntas!'',
     St_markdown ''---'', St_markdown ''Faca sua pergunta'',
     St_markdown ''---'', St_markdown ''### Historico de Conversas'',
     St_expander ''Who pays?...'' True
       [''**Pergunta:** Who pays?'', ''**Resposta:** Ana'']])"
proof -
  let ?be = "\<lparr>HuggingFaceEmbedding = None, OpenAI = \<lambda>m t. Inr ()\<rparr> :: (unit, unit) backend"
  let ?rg = "\<lparr>from_documents = \<lambda>d a. Inr (), as_query_engine = \<lambda>i a. Inr (),
      query = \<lambda>q t. Inr ''Friday''\<rparr> :: (unit, unit) rag"
  let ?fs = "\<lparr>fs_listdir = \<lambda>d. Inr [''b.txt''], fs_Presentation = \<lambda>p. Inl ''not a presentation'',
      fs_load_data = \<lambda>p e. Inr [\<lparr>doc_text = ''hello'', doc_metadata = []\<rparr>],
      fs_temp_dir = ''tmp'', fs_extractall = \<lambda>b d. None\<rparr>"
  let ?p = "\<lparr>environ = Map.empty, Settings_embed_model = (None :: unit option),
      Settings_llm = Some ()\<rparr>"
  let ?h = "Some [\<lparr>pergunta = ''Who pays?'', resposta = ''Ana''\<rparr>]"
  let ?s0 = "\<lparr>api_key_configured = Some True, documentos_processados = Some True,
      query_engine = Some (), num_documentos = 2, chat_history = ?h\<rparr>"
  let ?s1 = "\<lparr>api_key_configured = Some True, documentos_processados = Some False,
      query_engine = (None :: unit option), num_documentos = 0, chat_history = ?h\<rparr>"
  let ?s2 = "\<lparr>api_key_configured = Some True, documentos_processados = Some True,
      query_engine = Some (), num_documentos = 1, chat_history = ?h\<rparr>"
  let ?i1 = "\<lparr>api_key_input = [], config_button = False, uploaded_file = None,
      reload_button = True, pergunta_input = [], enviar_pergunta = False\<rparr>"
  let ?i2 = "\<lparr>api_key_input = [], config_button = False, uploaded_file = Some ''PK'',
      reload_button = False, pergunta_input = [], enviar_pergunta = False\<rparr>"
  let ?i3 = "\<lparr>api_key_input = [], config_button = False, uploaded_file = None,
      reload_button = False, pergunta_input = [], enviar_pergunta = False\<rparr>"
  have r1: "main ?be ?rg ?fs ?i1 ?s0 ?p =
     ((Rerun, ?s1, ?p),
      [St_markdown ''RAG Interativo-Explicacoes BackOffice e Gestao'',
       St_markdown ''2 documentos carregados - Sistema pronto para perguntas!''])"
    by (simp add: run_defs)
  have idle: "main ?be ?rg ?fs ?i3 ?s1 ?p =
     ((Returned (), ?s1, ?p),
      [St_markdown ''RAG Interativo-Explicacoes BackOffice e Gestao'',
       St_markdown ''Upload de Documentos''])"
    by (simp add: run_defs)
  have up: "main ?be ?rg ?fs ?i2 ?s1 ?p =
     ((Rerun, ?s2, ?p),
      [St_markdown ''RAG Interativo-Explicacoes BackOffice e Gestao'',
       St_markdown ''Upload de Documentos'',
       St_progress 0 1, St_status ''Processando: b.txt'', St_progress 1 1,
       St_progress 1 1, St_status ''Processamento concluido!'',
       St_markdown ''1 documentos processados com sucesso!''])"
    by (simp add: run_defs processar_documentos_def arquivos_eq recognized_samples
        lower_suffix_samples process_file_def update_metadata_def criar_indice_def)
  have r2: "run_all [(?be, ?rg, ?fs, ?i3), (?be, ?rg, ?fs, ?i2)] ?s1 ?p = (?s2, ?p)"
    by (simp add: idle up)
  have r3: "main ?be ?rg ?fs ?i3 ?s2 ?p =
     ((Returned (), ?s2, ?p),
      [St_markdown ''RAG Interativo-Explicacoes BackOffice e Gestao'',
       St_markdown ''1 documentos carregados - Sistema pronto para perguntas!'',
       St_markdown ''---'', St_markdown ''Faca sua pergunta'',
       St_markdown ''---'', St_markdown ''### Historico de Conversas'',
       St_expander ''Who pays?...'' True
         [''**Pergunta:** Who pays?'', ''**Resposta:** Ana'']])"
    by (simp add: run_defs)
  from transcript_survives_reload_runs[OF _ _ _ r1 r2 _ _ r3]
  have "\<exists>new. transcript ?s2 = transcript ?s0 @ new" by simp
  with r1 r2 r3 show ?thesis by simp
qed

end
